theory Spec2Isabelle
  imports Complex_Main "HOL-Library.Code_Target_Nat"
begin

section \<open>JSON values and JavaScript objects\<close>

text \<open>
  The converter works on the value returned by \<^verbatim>\<open>JSON.parse\<close>. A JavaScript number is a
  double: a finite value (an exact rational) or one of the three non-finite values
  (\<^verbatim>\<open>JSON.parse\<close> yields \<^verbatim>\<open>Infinity\<close> on an overflowing literal). The program only ever asks
  a number whether it is an integer, whether it is finite, and for its text.
\<close>

datatype number = Finite rat | PosInfinity | NegInfinity | NaN

fun isFinite :: "number \<Rightarrow> bool" where
  "isFinite (Finite r) = True"
| "isFinite PosInfinity = False"
| "isFinite NegInfinity = False"
| "isFinite NaN = False"

fun isInteger :: "number \<Rightarrow> bool" where
  "isInteger (Finite r) = (of_int \<lfloor>r\<rfloor> = r)"
| "isInteger PosInfinity = False"
| "isInteger NegInfinity = False"
| "isInteger NaN = False"

text \<open>
  An object of \<^verbatim>\<open>JSON.parse\<close> is the list of its entries in the order \<^verbatim>\<open>Object.entries\<close>
  enumerates them; a string is the list of its code units.
\<close>

datatype json =
    JNull
  | JBool bool
  | JNum number
  | JStr string
  | JArr "json list"
  | JObj "(string \<times> json) list"

text \<open>
  A \<^verbatim>\<open>Record<string, any>\<close> of the program is an object with its own properties, in the
  order \<^verbatim>\<open>Object.keys\<close> enumerates them, and a prototype. Every object the program builds
  has the prototype \<^verbatim>\<open>Object.prototype\<close>, until an assignment to \<^verbatim>\<open>__proto__\<close> resets it to
  null (\<open>nullProto\<close>).
\<close>

record js_object =
  props :: "(string \<times> json) list"
  nullProto :: bool

text \<open>An object with the prototype \<^verbatim>\<open>Object.prototype\<close> and the given own properties.\<close>

abbreviation ordinary :: "(string \<times> json) list \<Rightarrow> js_object" where
  "ordinary ps \<equiv> \<lparr> props = ps, nullProto = False \<rparr>"

definition hasOwnProperty :: "js_object \<Rightarrow> string \<Rightarrow> bool" where
  "hasOwnProperty obj key = (key \<in> fst ` set (props obj))"

text \<open>
  JavaScript enumerates the properties whose name is an array index (the canonical decimal
  text of an integer from 0 to \<open>2^32 - 2\<close>) first, in ascending numeric order, and the other
  properties after them in the order of their creation.
\<close>

definition isDigit :: "char \<Rightarrow> bool" where
  "isDigit c = (c \<in> set ''0123456789'')"

definition digitsValue :: "string \<Rightarrow> nat" where
  "digitsValue s = foldl (\<lambda>n c. 10 * n + (of_char c - 48)) 0 s"

definition isArrayIndex :: "string \<Rightarrow> bool" where
  "isArrayIndex s =
     (s \<noteq> [] \<and> list_all isDigit s \<and> (s = ''0'' \<or> hd s \<noteq> CHR ''0'')
      \<and> digitsValue s < 4294967295)"

fun insertIndexed :: "(string \<times> json) list \<Rightarrow> string \<Rightarrow> json \<Rightarrow> (string \<times> json) list" where
  "insertIndexed [] key v = [(key, v)]"
| "insertIndexed ((k, w) # rest) key v =
     (if isArrayIndex k \<and> digitsValue k < digitsValue key
      then (k, w) # insertIndexed rest key v
      else (key, v) # (k, w) # rest)"

fun updateProperty :: "(string \<times> json) list \<Rightarrow> string \<Rightarrow> json \<Rightarrow> (string \<times> json) list" where
  "updateProperty [] key v = []"
| "updateProperty ((k, w) # rest) key v =
     (if k = key then (k, v) # rest else (k, w) # updateProperty rest key v)"

text \<open>
  The definition of an own data property: what a member of an object literal does, a
  computed member \<^verbatim>\<open>[key]: v\<close> and a spread member alike, whatever the key (also for
  \<^verbatim>\<open>__proto__\<close>). An existing property keeps its place.
\<close>

definition defineProperty ::
    "(string \<times> json) list \<Rightarrow> string \<Rightarrow> json \<Rightarrow> (string \<times> json) list" where
  "defineProperty ps key v =
     (if key \<in> fst ` set ps then updateProperty ps key v
      else if isArrayIndex key then insertIndexed ps key v
      else ps @ [(key, v)])"

text \<open>
  The assignment \<^verbatim>\<open>obj[key] = v\<close>. It writes an own property, except for the key
  \<^verbatim>\<open>__proto__\<close> on an object that has no own property of that name and still has the
  prototype \<^verbatim>\<open>Object.prototype\<close>: there the assignment calls the setter of
  \<^verbatim>\<open>Object.prototype.__proto__\<close>, which stores no property; it resets the prototype to null
  when \<open>v\<close> is null and does nothing when \<open>v\<close> is a boolean, a number or a string. (An
  object or array would become the prototype; the flattener assigns scalars only, and
  the model leaves the object unchanged for them.)
\<close>

definition assignProperty :: "js_object \<Rightarrow> string \<Rightarrow> json \<Rightarrow> js_object" where
  "assignProperty obj key v =
     (if key = ''__proto__'' \<and> \<not> hasOwnProperty obj key \<and> \<not> nullProto obj
      then (if v = JNull then obj\<lparr>nullProto := True\<rparr> else obj)
      else obj\<lparr>props := defineProperty (props obj) key v\<rparr>)"

text \<open>The literals \<^verbatim>\<open>{ ...base }\<close>, \<^verbatim>\<open>{ ...base, [key]: v }\<close> and \<^verbatim>\<open>{ ...base, ...rec }\<close>: new objects.\<close>

definition copyObject :: "js_object \<Rightarrow> js_object" where
  "copyObject base = ordinary (props base)"

definition withProperty :: "js_object \<Rightarrow> string \<Rightarrow> json \<Rightarrow> js_object" where
  "withProperty base key v = ordinary (defineProperty (props base) key v)"

definition spread :: "js_object \<Rightarrow> js_object \<Rightarrow> js_object" where
  "spread base rec =
     ordinary (foldl (\<lambda>ps (k, v). defineProperty ps k v) (props base) (props rec))"

text \<open>
  The value of a member read \<^verbatim>\<open>obj[key]\<close>: the own property if there is one, and otherwise
  what the prototype chain gives. \<^verbatim>\<open>Object.prototype\<close> holds the built-in functions below
  (the function under \<^verbatim>\<open>constructor\<close> is \<^verbatim>\<open>Object\<close>, the others are named like their key)
  and the accessor \<^verbatim>\<open>__proto__\<close>, whose getter returns \<^verbatim>\<open>Object.prototype\<close> itself.
\<close>

datatype member = Undefined | Value json | NativeFunction string | ObjectPrototype

definition objectPrototypeFunctions :: "string list" where
  "objectPrototypeFunctions =
     [''__defineGetter__'', ''__defineSetter__'', ''hasOwnProperty'', ''__lookupGetter__'',
      ''__lookupSetter__'', ''isPrototypeOf'', ''propertyIsEnumerable'', ''toString'',
      ''valueOf'', ''toLocaleString'']"

definition objectPrototypeMember :: "string \<Rightarrow> member" where
  "objectPrototypeMember key =
     (if key = ''__proto__'' then ObjectPrototype
      else if key = ''constructor'' then NativeFunction ''Object''
      else if key \<in> set objectPrototypeFunctions then NativeFunction key
      else Undefined)"

definition getProperty :: "js_object \<Rightarrow> string \<Rightarrow> member" where
  "getProperty obj key =
     (case map_of (props obj) key of
        Some v \<Rightarrow> Value v
      | None \<Rightarrow> if nullProto obj then Undefined else objectPrototypeMember key)"

section \<open>Text conversions of the JavaScript runtime\<close>

text \<open>\<^verbatim>\<open>parts.join(sep)\<close> on an array of strings.\<close>

fun joinWith :: "string \<Rightarrow> string list \<Rightarrow> string" where
  "joinWith sep [] = []"
| "joinWith sep [s] = s"
| "joinWith sep (s # t # rest) = s @ sep @ joinWith sep (t # rest)"

text \<open>
  \<^verbatim>\<open>String(v)\<close>. The text of a number (\<^verbatim>\<open>Number.prototype.toString\<close>, the shortest decimal
  that reads back as the same double) is not computed here: every function that needs it
  takes it as the parameter \<open>numberToString\<close>. \<^verbatim>\<open>Array.prototype.join\<close> writes a null element
  as the empty text.
\<close>

fun toStr :: "(number \<Rightarrow> string) \<Rightarrow> json \<Rightarrow> string" where
  "toStr numberToString JNull = ''null''"
| "toStr numberToString (JBool b) = (if b then ''true'' else ''false'')"
| "toStr numberToString (JNum n) = numberToString n"
| "toStr numberToString (JStr s) = s"
| "toStr numberToString (JArr xs) =
     joinWith '','' (map (\<lambda>x. if x = JNull then [] else toStr numberToString x) xs)"
| "toStr numberToString (JObj es) = ''[object Object]''"

definition arrayJoin :: "(number \<Rightarrow> string) \<Rightarrow> string \<Rightarrow> json list \<Rightarrow> string" where
  "arrayJoin numberToString sep xs =
     joinWith sep (map (\<lambda>x. if x = JNull then [] else toStr numberToString x) xs)"

text \<open>
  \<^verbatim>\<open>String(value)\<close> on the value of a member read. A built-in function prints as
  \<^verbatim>\<open>function name() { [native code] }\<close> (the text of Node.js), \<^verbatim>\<open>Object.prototype\<close> as any
  plain object.
\<close>

fun memberToString :: "(number \<Rightarrow> string) \<Rightarrow> member \<Rightarrow> string" where
  "memberToString numberToString Undefined = ''undefined''"
| "memberToString numberToString (Value v) = toStr numberToString v"
| "memberToString numberToString (NativeFunction name) =
     ''function '' @ name @ ''() { [native code] }''"
| "memberToString numberToString ObjectPrototype = ''[object Object]''"

section \<open>The flattener (server/lib/json-parser.ts)\<close>

subsection \<open>getNestingLevel\<close>

fun getNestingLevel :: "json \<Rightarrow> nat \<Rightarrow> nat" where
  "getNestingLevel (JArr xs) currentLevel =
     fold (\<lambda>v maxLevel. max maxLevel (getNestingLevel v (currentLevel + 1))) xs currentLevel"
| "getNestingLevel (JObj es) currentLevel =
     fold (\<lambda>v maxLevel. max maxLevel (getNestingLevel v (currentLevel + 1)))
       (map snd es) currentLevel"
| "getNestingLevel v currentLevel = currentLevel"

subsection \<open>explodeObject\<close>

text \<open>The test \<^verbatim>\<open>item === null || typeof item === 'string' || ...\<close> of both \<^verbatim>\<open>every\<close> calls.\<close>

fun isPrimitive :: "json \<Rightarrow> bool" where
  "isPrimitive (JArr xs) = False"
| "isPrimitive (JObj es) = False"
| "isPrimitive v = True"

text \<open>\<^verbatim>\<open>value.filter(x => x !== null && x !== undefined).join(', ')\<close>\<close>

definition joinPrimitives :: "(number \<Rightarrow> string) \<Rightarrow> json list \<Rightarrow> json" where
  "joinPrimitives numberToString xs =
     JStr (arrayJoin numberToString '', '' (filter (\<lambda>x. x \<noteq> JNull) xs))"

text \<open>
  The merge of a single nested record into the base context:
  \<^verbatim>\<open>if (!hasOwnProperty.call(baseContext, recKey)) baseContext[recKey] = recValue\<close>, for the
  entries of the record.
\<close>

definition mergeMissing :: "js_object \<Rightarrow> js_object \<Rightarrow> js_object" where
  "mergeMissing baseContext singleRecord =
     foldl (\<lambda>bc (recKey, recValue).
              if \<not> hasOwnProperty bc recKey then assignProperty bc recKey recValue else bc)
       baseContext (props singleRecord)"

definition indexNumber :: "nat \<Rightarrow> number" where
  "indexNumber i = Finite (of_nat i)"

text \<open>
  \<open>explodeItems\<close> is the \<^verbatim>\<open>forEach\<close> over the items of an object array (the results are
  pushed in item order), \<open>explodeEntries\<close> the \<^verbatim>\<open>for\<close> loop over the entries of an object,
  which carries \<open>baseContext\<close> (at first the copy \<^verbatim>\<open>{ ...parentContext }\<close>) and
  \<open>nestedExplosions\<close>. The records of the array and primitive branches are object literals
  with a computed key; the loop over the entries assigns to \<open>baseContext\<close>.
\<close>

fun explodeObject ::
    "(number \<Rightarrow> string) \<Rightarrow> json \<Rightarrow> string \<Rightarrow> js_object \<Rightarrow> string \<Rightarrow> nat \<Rightarrow> js_object list"
  and explodeItems ::
    "(number \<Rightarrow> string) \<Rightarrow> json list \<Rightarrow> nat \<Rightarrow> string \<Rightarrow> js_object \<Rightarrow> string \<Rightarrow> nat
       \<Rightarrow> js_object list"
  and explodeEntries ::
    "(number \<Rightarrow> string) \<Rightarrow> (string \<times> json) list \<Rightarrow> string \<Rightarrow> string \<Rightarrow> nat
       \<Rightarrow> js_object \<Rightarrow> js_object list \<Rightarrow> js_object \<times> js_object list"
where
  "explodeObject numberToString (JArr xs) prefix parentContext sourcePath arrayLevel =
     (if xs = [] then [withProperty parentContext prefix JNull]
      else if list_all isPrimitive xs
      then [withProperty parentContext prefix (joinPrimitives numberToString xs)]
      else
        (let allRecords =
               explodeItems numberToString xs 0 prefix parentContext sourcePath arrayLevel
         in if allRecords \<noteq> [] then allRecords else [parentContext]))"
| "explodeObject numberToString (JObj es) prefix parentContext sourcePath arrayLevel =
     (case explodeEntries numberToString es prefix sourcePath arrayLevel
             (copyObject parentContext) [] of
        (baseContext, nestedExplosions) \<Rightarrow>
          if nestedExplosions \<noteq> [] then map (\<lambda>rec. spread baseContext rec) nestedExplosions
          else [baseContext])"
| "explodeObject numberToString v prefix parentContext sourcePath arrayLevel =
     [withProperty parentContext (if prefix = [] then ''value'' else prefix) v]"
| "explodeItems numberToString [] idx prefix parentContext sourcePath arrayLevel = []"
| "explodeItems numberToString (item # rest) idx prefix parentContext sourcePath arrayLevel =
     (let newSourcePath =
            (if sourcePath \<noteq> [] then sourcePath
             else if prefix \<noteq> [] then prefix else ''root'');
          indexKey =
            (if prefix \<noteq> [] then prefix @ ''_index''
             else ''_index_level_'' @ numberToString (indexNumber arrayLevel));
          itemRecords =
            explodeObject numberToString item prefix
              (withProperty parentContext indexKey (JNum (indexNumber idx)))
              newSourcePath (arrayLevel + 1)
      in itemRecords
         @ explodeItems numberToString rest (idx + 1) prefix parentContext sourcePath arrayLevel)"
| "explodeEntries numberToString [] prefix sourcePath arrayLevel baseContext nestedExplosions =
     (baseContext, nestedExplosions)"
| "explodeEntries numberToString ((key, value) # rest) prefix sourcePath arrayLevel
       baseContext nestedExplosions =
     (let fullKey = (if prefix \<noteq> [] then prefix @ ''_'' @ key else key)
      in case value of
           JArr xs \<Rightarrow>
             if xs = []
             then explodeEntries numberToString rest prefix sourcePath arrayLevel
                    (assignProperty baseContext fullKey JNull) nestedExplosions
             else if list_all isPrimitive xs
             then explodeEntries numberToString rest prefix sourcePath arrayLevel
                    (assignProperty baseContext fullKey (joinPrimitives numberToString xs))
                    nestedExplosions
             else
               (let newSourcePath = (if sourcePath \<noteq> [] then sourcePath else fullKey);
                    arrayRecords =
                      explodeObject numberToString value fullKey baseContext newSourcePath
                        (arrayLevel + 1)
                in explodeEntries numberToString rest prefix sourcePath arrayLevel
                     baseContext (nestedExplosions @ arrayRecords))
         | JObj es \<Rightarrow>
             (let nestedRecords =
                    explodeObject numberToString value fullKey baseContext sourcePath arrayLevel
              in if length nestedRecords > 1
                 then explodeEntries numberToString rest prefix sourcePath arrayLevel
                        baseContext (nestedExplosions @ nestedRecords)
                 else if length nestedRecords = 1
                 then explodeEntries numberToString rest prefix sourcePath arrayLevel
                        (mergeMissing baseContext (hd nestedRecords)) nestedExplosions
                 else explodeEntries numberToString rest prefix sourcePath arrayLevel
                        baseContext nestedExplosions)
         | _ \<Rightarrow>
             explodeEntries numberToString rest prefix sourcePath arrayLevel
               (assignProperty baseContext fullKey value) nestedExplosions)"

text \<open>
  \<open>parseAndFlattenJSON\<close> after its \<^verbatim>\<open>JSON.parse\<close>: the argument is the parsed value (a text
  that does not parse makes \<^verbatim>\<open>JSON.parse\<close> throw before anything here runs).
\<close>

record ParsedJSON =
  data :: "js_object list"
  maxNestingLevel :: nat
  objectCount :: nat

definition parseAndFlattenJSON :: "(number \<Rightarrow> string) \<Rightarrow> json \<Rightarrow> ParsedJSON" where
  "parseAndFlattenJSON numberToString parsed =
     (let records = explodeObject numberToString parsed [] (ordinary []) [] 0
      in \<lparr> data = records,
           maxNestingLevel = getNestingLevel parsed 0,
           objectCount = length records \<rparr>)"

section \<open>The CSV generator (generateCSV)\<close>

abbreviation (input) dquote :: char where "dquote \<equiv> CHR 0x22"
abbreviation (input) squote :: char where "squote \<equiv> CHR 0x27"
abbreviation (input) lineFeed :: char where "lineFeed \<equiv> CHR 0x0A"
abbreviation (input) carriageReturn :: char where "carriageReturn \<equiv> CHR 0x0D"
abbreviation (input) backslash :: char where "backslash \<equiv> CHR 0x5C"

text \<open>\<^verbatim>\<open>s.replace(/c/g, r)\<close> for a single character \<open>c\<close>, and \<^verbatim>\<open>s.includes(c)\<close>.\<close>

definition replaceAll :: "char \<Rightarrow> string \<Rightarrow> string \<Rightarrow> string" where
  "replaceAll c r s = concat (map (\<lambda>x. if x = c then r else [x]) s)"

definition stringIncludes :: "string \<Rightarrow> char \<Rightarrow> bool" where
  "stringIncludes s c = (c \<in> set s)"

text \<open>
  \<^verbatim>\<open>JSON.stringify\<close> on a parsed value: a non-finite number is written \<^verbatim>\<open>null\<close>, a string is
  quoted with the escapes of JSON.
\<close>

definition hexDigit :: "nat \<Rightarrow> char" where
  "hexDigit n = ''0123456789abcdef'' ! (n mod 16)"

definition quoteJSONChar :: "char \<Rightarrow> string" where
  "quoteJSONChar c =
     (if c = CHR 0x08 then [backslash, CHR ''b'']
      else if c = CHR 0x09 then [backslash, CHR ''t'']
      else if c = lineFeed then [backslash, CHR ''n'']
      else if c = CHR 0x0C then [backslash, CHR ''f'']
      else if c = carriageReturn then [backslash, CHR ''r'']
      else if c = dquote then [backslash, dquote]
      else if c = backslash then [backslash, backslash]
      else if (of_char c :: nat) < 32
      then [backslash, CHR ''u'', CHR ''0'', CHR ''0'',
            hexDigit (of_char c div 16), hexDigit (of_char c)]
      else [c])"

definition quoteJSONString :: "string \<Rightarrow> string" where
  "quoteJSONString s = dquote # concat (map quoteJSONChar s) @ [dquote]"

fun jsonStringify :: "(number \<Rightarrow> string) \<Rightarrow> json \<Rightarrow> string" where
  "jsonStringify numberToString JNull = ''null''"
| "jsonStringify numberToString (JBool b) = (if b then ''true'' else ''false'')"
| "jsonStringify numberToString (JNum n) = (if isFinite n then numberToString n else ''null'')"
| "jsonStringify numberToString (JStr s) = quoteJSONString s"
| "jsonStringify numberToString (JArr xs) =
     ''['' @ joinWith '','' (map (jsonStringify numberToString) xs) @ '']''"
| "jsonStringify numberToString (JObj es) =
     ''{'' @ joinWith '',''
               (map (\<lambda>(k, v). quoteJSONString k @ '':'' @ jsonStringify numberToString v) es)
      @ ''}''"

text \<open>
  The header collection: \<open>columnMap\<close> is a \<^verbatim>\<open>Map\<close>, which keeps its keys in insertion
  order; each new key is stored with the size of the map at that moment.
\<close>

definition columnMapAdd :: "(string \<times> nat) list \<Rightarrow> string \<Rightarrow> (string \<times> nat) list" where
  "columnMapAdd columnMap key =
     (if key \<notin> fst ` set columnMap then columnMap @ [(key, length columnMap)] else columnMap)"

definition csvHeaders :: "js_object list \<Rightarrow> string list" where
  "csvHeaders records =
     map fst (foldl (\<lambda>columnMap record. foldl columnMapAdd columnMap (map fst (props record)))
              [] records)"

text \<open>\<^verbatim>\<open>/^[=+\-@]/.test(stringValue)\<close>\<close>

definition startsWithFormulaChar :: "string \<Rightarrow> bool" where
  "startsWithFormulaChar s = (case s of [] \<Rightarrow> False | c # rest \<Rightarrow> c \<in> set ''=+-@'')"

text \<open>
  \<open>escapeCSVValue\<close>, applied to the value of a member read (\<^verbatim>\<open>record[header]\<close>) or to a
  header. Its \<open>stringValue\<close> is \<^verbatim>\<open>JSON.stringify(value)\<close> when \<^verbatim>\<open>typeof value\<close> is
  \<^verbatim>\<open>'object'\<close> (an array, an object, or \<^verbatim>\<open>Object.prototype\<close>, which has no enumerable property
  and prints \<^verbatim>\<open>{}\<close>) and \<^verbatim>\<open>String(value)\<close> otherwise.
\<close>

fun isObject :: "json \<Rightarrow> bool" where
  "isObject (JArr xs) = True"
| "isObject (JObj es) = True"
| "isObject v = False"

fun stringValue :: "(number \<Rightarrow> string) \<Rightarrow> member \<Rightarrow> string" where
  "stringValue numberToString (Value v) =
     (if isObject v then jsonStringify numberToString v else toStr numberToString v)"
| "stringValue numberToString ObjectPrototype = ''{}''"
| "stringValue numberToString m = memberToString numberToString m"

definition escapeCSVValue :: "(number \<Rightarrow> string) \<Rightarrow> member \<Rightarrow> string" where
  "escapeCSVValue numberToString value =
     (if value = Value JNull \<or> value = Undefined then []
      else
        (let stringValue = stringValue numberToString value;
             needsQuoting =
               (stringIncludes stringValue CHR '','' \<or> stringIncludes stringValue dquote
                \<or> stringIncludes stringValue lineFeed \<or> stringIncludes stringValue carriageReturn
                \<or> startsWithFormulaChar stringValue)
         in if needsQuoting
            then [dquote] @ replaceAll dquote [dquote, dquote] stringValue @ [dquote]
            else stringValue))"

definition generateCSV :: "(number \<Rightarrow> string) \<Rightarrow> js_object list \<Rightarrow> string" where
  "generateCSV numberToString records =
     (if records = [] then []
      else
        (let headers = csvHeaders records;
             headerRow =
               joinWith '','' (map (\<lambda>h. escapeCSVValue numberToString (Value (JStr h))) headers);
             dataRows =
               map (\<lambda>record.
                      joinWith '',''
                        (map (\<lambda>header. escapeCSVValue numberToString (getProperty record header))
                           headers))
                 records
         in joinWith [lineFeed] (headerRow # dataRows)))"

section \<open>The SQL generator (server/lib/sql-generator.ts)\<close>

definition escapeIdentifier :: "string \<Rightarrow> string" where
  "escapeIdentifier identifier = [dquote] @ replaceAll dquote [dquote, dquote] identifier @ [dquote]"

text \<open>The local variables of \<open>inferSQLType\<close>, updated by one pass over the column's values.\<close>

record profile =
  hasNull :: bool
  hasNumber :: bool
  hasBoolean :: bool
  hasString :: bool
  allIntegers :: bool
  maxLength :: nat

definition initialProfile :: profile where
  "initialProfile =
     \<lparr> hasNull = False, hasNumber = False, hasBoolean = False, hasString = False,
       allIntegers = True, maxLength = 0 \<rparr>"

fun observe :: "(number \<Rightarrow> string) \<Rightarrow> profile \<Rightarrow> member \<Rightarrow> profile" where
  "observe numberToString p Undefined = p\<lparr>hasNull := True\<rparr>"
| "observe numberToString p (Value JNull) = p\<lparr>hasNull := True\<rparr>"
| "observe numberToString p (Value (JBool b)) = p\<lparr>hasBoolean := True\<rparr>"
| "observe numberToString p (Value (JNum n)) =
     (if \<not> isInteger n \<or> \<not> isFinite n
      then p\<lparr>hasNumber := True, allIntegers := False\<rparr>
      else p\<lparr>hasNumber := True\<rparr>)"
| "observe numberToString p (Value (JStr s)) =
     p\<lparr>hasString := True, maxLength := max (maxLength p) (length s)\<rparr>"
| "observe numberToString p m =
     p\<lparr>hasString := True,
       maxLength := max (maxLength p) (length (memberToString numberToString m))\<rparr>"

definition inferSQLType :: "(number \<Rightarrow> string) \<Rightarrow> string \<Rightarrow> member list \<Rightarrow> string" where
  "inferSQLType numberToString columnName values =
     (let p = foldl (observe numberToString) initialProfile values
      in if hasBoolean p \<and> \<not> hasNumber p \<and> \<not> hasString p then ''BOOLEAN''
         else if hasNumber p \<and> \<not> hasString p
         then (if allIntegers p then ''BIGINT'' else ''DOUBLE PRECISION'')
         else if maxLength p = 0 then ''TEXT''
         else if maxLength p \<le> 255 then ''VARCHAR(255)''
         else ''TEXT'')"

text \<open>\<^verbatim>\<open>tableName.replace(/[^a-zA-Z0-9_]/g, '_')\<close>\<close>

definition isWordChar :: "char \<Rightarrow> bool" where
  "isWordChar c =
     (c \<in> set ''abcdefghijklmnopqrstuvwxyzABCDEFGHIJKLMNOPQRSTUVWXYZ0123456789_'')"

definition sanitizeTableName :: "string \<Rightarrow> string" where
  "sanitizeTableName tableName = map (\<lambda>c. if isWordChar c then c else CHR ''_'') tableName"

text \<open>\<open>columnSet\<close> is a \<^verbatim>\<open>Set\<close>, which keeps its elements in insertion order.\<close>

definition columnSetAdd :: "string list \<Rightarrow> string \<Rightarrow> string list" where
  "columnSetAdd columnSet key = (if key \<in> set columnSet then columnSet else columnSet @ [key])"

definition sqlColumns :: "js_object list \<Rightarrow> string list" where
  "sqlColumns records =
     foldl (\<lambda>columnSet record. foldl columnSetAdd columnSet (map fst (props record))) [] records"

text \<open>The rendering of one value of an \<^verbatim>\<open>INSERT\<close> (the function mapped over \<open>columns\<close>).\<close>

definition sqlValue :: "(number \<Rightarrow> string) \<Rightarrow> member \<Rightarrow> string" where
  "sqlValue numberToString value =
     (case value of
        Undefined \<Rightarrow> ''NULL''
      | Value JNull \<Rightarrow> ''NULL''
      | Value (JNum n) \<Rightarrow> (if \<not> isFinite n then ''NULL'' else numberToString n)
      | Value (JBool b) \<Rightarrow> (if b then ''TRUE'' else ''FALSE'')
      | m \<Rightarrow> [squote]
             @ replaceAll squote [squote, squote] (memberToString numberToString m)
             @ [squote])"

definition columnType :: "(string \<times> string) list \<Rightarrow> string \<Rightarrow> string" where
  "columnType columnTypes col =
     (case map_of columnTypes col of
        None \<Rightarrow> ''TEXT''
      | Some t \<Rightarrow> (if t = [] then ''TEXT'' else t))"

definition createTableLines ::
    "string \<Rightarrow> string list \<Rightarrow> (string \<times> string) list \<Rightarrow> string list" where
  "createTableLines safeTableName columns columnTypes =
     [''CREATE TABLE '' @ escapeIdentifier safeTableName @ '' (''] @
     map (\<lambda>(idx, col).
            ''  '' @ escapeIdentifier col @ '' '' @ columnType columnTypes col
            @ (if idx + 1 < length columns then '','' else []))
       (enumerate 0 columns) @
     ['');'']"

definition insertStatement ::
    "(number \<Rightarrow> string) \<Rightarrow> string \<Rightarrow> string list \<Rightarrow> js_object \<Rightarrow> string" where
  "insertStatement numberToString safeTableName columns record =
     (let values = map (\<lambda>col. sqlValue numberToString (getProperty record col)) columns;
          columnList = joinWith '', '' (map escapeIdentifier columns)
      in ''INSERT INTO '' @ escapeIdentifier safeTableName @ '' ('' @ columnList
         @ '') VALUES ('' @ joinWith '', '' values @ '');'')"

text \<open>
  \<open>generateSQL\<close>; \<open>now\<close> is the text of \<^verbatim>\<open>new Date().toISOString()\<close> at the call.
\<close>

definition generateSQL ::
    "(number \<Rightarrow> string) \<Rightarrow> string \<Rightarrow> js_object list \<Rightarrow> string \<Rightarrow> string" where
  "generateSQL numberToString now records tableName =
     (if records = [] then ''-- No data to convert''
      else
        (let safeTableName = sanitizeTableName tableName;
             columns = sqlColumns records;
             columnTypes =
               map (\<lambda>col. (col, inferSQLType numberToString col
                                  (map (\<lambda>record. getProperty record col) records)))
                 columns;
             createTableSQL =
               joinWith [lineFeed] (createTableLines safeTableName columns columnTypes);
             insertStatements =
               map (insertStatement numberToString safeTableName columns) records
         in ''-- SQL Generated: '' @ now @ [lineFeed] @ ''-- Table: '' @ safeTableName
            @ [lineFeed] @ ''-- Records: '' @ numberToString (indexNumber (length records))
            @ [lineFeed, lineFeed] @ createTableSQL @ [lineFeed, lineFeed]
            @ joinWith [lineFeed] insertStatements))"

section \<open>Notions of the specification\<close>

subsection \<open>An instance of the number text\<close>

text \<open>
  The examples below need a concrete \<open>numberToString\<close>. \<open>integerToString\<close> is
  \<^verbatim>\<open>Number.prototype.toString\<close> on the integers of magnitude up to \<open>2^53\<close> (their decimal
  digits) and on the non-finite numbers; on every other number it gives the empty text,
  which is not the text of JavaScript, and no example applies it there.
\<close>

function natToString :: "nat \<Rightarrow> string" where
  "natToString n =
     (if n < 10 then [''0123456789'' ! n]
      else natToString (n div 10) @ [''0123456789'' ! (n mod 10)])"
  by pat_completeness auto
termination
  by (relation "measure id") auto

definition integerToString :: "number \<Rightarrow> string" where
  "integerToString n =
     (case n of
        Finite r \<Rightarrow>
          (if of_int \<lfloor>r\<rfloor> = r \<and> \<bar>r\<bar> \<le> 9007199254740992
           then (if r < 0 then ''-'' @ natToString (nat (- \<lfloor>r\<rfloor>)) else natToString (nat \<lfloor>r\<rfloor>))
           else [])
      | PosInfinity \<Rightarrow> ''Infinity''
      | NegInfinity \<Rightarrow> ''-Infinity''
      | NaN \<Rightarrow> ''NaN'')"

subsection \<open>Flat records\<close>

text \<open>A flat record maps every column to a scalar: null, a boolean, a number or a string.\<close>

definition flatRecord :: "js_object \<Rightarrow> bool" where
  "flatRecord r = list_all (\<lambda>(k, v). isPrimitive v) (props r)"

subsection \<open>The field of an array of primitives\<close>

text \<open>
  Null for an empty array, and otherwise the texts of the non-null elements joined with a
  comma and a space.
\<close>

definition joinedField :: "(number \<Rightarrow> string) \<Rightarrow> json list \<Rightarrow> json" where
  "joinedField numberToString xs =
     (if xs = [] then JNull
      else JStr (joinWith '', '' (map (toStr numberToString) (filter (\<lambda>x. x \<noteq> JNull) xs))))"

subsection \<open>Values without arrays\<close>

text \<open>
  A value with no array field anywhere inside it, and an object of that kind (the elements
  of the two sibling arrays of the union property).
\<close>

fun arrayFree :: "json \<Rightarrow> bool" where
  "arrayFree (JArr xs) = False"
| "arrayFree (JObj es) = list_all arrayFree (map snd es)"
| "arrayFree v = True"

fun plainObject :: "json \<Rightarrow> bool" where
  "plainObject (JObj es) = list_all arrayFree (map snd es)"
| "plainObject v = False"

subsection \<open>Nesting depth\<close>

text \<open>
  The depth rule in the words of the specification: the root is at depth 0, a child
  container is one deeper than its parent, a primitive or null has the depth of its
  parent; the result is the greatest depth seen.
\<close>

fun specLevels :: "json \<Rightarrow> nat \<Rightarrow> nat list" where
  "specLevels (JArr xs) depth =
     depth # concat (map (\<lambda>c. if isObject c then specLevels c (depth + 1) else [depth]) xs)"
| "specLevels (JObj es) depth =
     depth #
     concat (map (\<lambda>c. if isObject c then specLevels c (depth + 1) else [depth]) (map snd es))"
| "specLevels v depth = [depth]"

definition specNestingLevel :: "json \<Rightarrow> nat" where
  "specNestingLevel v = Max (set (specLevels v 0))"

text \<open>
  The levels at which the code visits the nodes of a value: every child, container or
  not, is visited one level below its parent.
\<close>

fun visitedLevels :: "json \<Rightarrow> nat \<Rightarrow> nat list" where
  "visitedLevels (JArr xs) level =
     level # concat (map (\<lambda>c. visitedLevels c (level + 1)) xs)"
| "visitedLevels (JObj es) level =
     level # concat (map (\<lambda>c. visitedLevels c (level + 1)) (map snd es))"
| "visitedLevels v level = [level]"

subsection \<open>The type of a column\<close>




fun isStringLike :: "member \<Rightarrow> bool" where
  "isStringLike Undefined = False"
| "isStringLike (Value JNull) = False"
| "isStringLike (Value (JBool b)) = False"
| "isStringLike (Value (JNum n)) = False"
| "isStringLike m = True"






subsection \<open>Quoting and column order\<close>

text \<open>A text with every occurrence of the quote character \<open>q\<close> doubled, between two \<open>q\<close>.\<close>

fun doubled :: "char \<Rightarrow> string \<Rightarrow> string" where
  "doubled q [] = []"
| "doubled q (c # cs) = (if c = q then q # q # doubled q cs else c # doubled q cs)"

definition quoted :: "char \<Rightarrow> string \<Rightarrow> string" where
  "quoted q s = q # doubled q s @ [q]"

text \<open>The condition under which a CSV field is quoted.\<close>

definition needsQuoting :: "string \<Rightarrow> bool" where
  "needsQuoting s =
     (CHR '','' \<in> set s \<or> dquote \<in> set s \<or> lineFeed \<in> set s \<or> carriageReturn \<in> set s
      \<or> take 1 s \<in> {''='', ''+'', ''-'', ''@''})"

text \<open>
  The names of a list in the order of their first occurrence, each once; \<open>allKeys\<close> lists
  the keys of a record set, record after record.
\<close>

definition firstSeen :: "string list \<Rightarrow> string list" where
  "firstSeen ks = rev (remdups (rev ks))"

definition allKeys :: "js_object list \<Rightarrow> string list" where
  "allKeys records = concat (map (\<lambda>record. map fst (props record)) records)"

section \<open>Properties\<close>

subsection \<open>Totality and flat records\<close>

lemma flat_updateProperty:
  "list_all (\<lambda>(k, v). isPrimitive v) ps \<Longrightarrow> isPrimitive v \<Longrightarrow>
     list_all (\<lambda>(k, v). isPrimitive v) (updateProperty ps key v)"
  by (induction ps key v rule: updateProperty.induct) auto

lemma flat_insertIndexed:
  "list_all (\<lambda>(k, v). isPrimitive v) ps \<Longrightarrow> isPrimitive v \<Longrightarrow>
     list_all (\<lambda>(k, v). isPrimitive v) (insertIndexed ps key v)"
  by (induction ps key v rule: insertIndexed.induct) auto

lemma flat_defineProperty:
  "list_all (\<lambda>(k, v). isPrimitive v) ps \<Longrightarrow> isPrimitive v \<Longrightarrow>
     list_all (\<lambda>(k, v). isPrimitive v) (defineProperty ps key v)"
  by (simp add: defineProperty_def flat_updateProperty flat_insertIndexed)

lemma flatRecord_empty: "flatRecord (ordinary [])"
  by (simp add: flatRecord_def)

lemma flatRecord_copyObject: "flatRecord base \<Longrightarrow> flatRecord (copyObject base)"
  by (simp add: flatRecord_def copyObject_def)

lemma flatRecord_withProperty:
  "flatRecord base \<Longrightarrow> isPrimitive v \<Longrightarrow> flatRecord (withProperty base key v)"
  by (simp add: flatRecord_def withProperty_def flat_defineProperty)

lemma flatRecord_assignProperty:
  "flatRecord obj \<Longrightarrow> isPrimitive v \<Longrightarrow> flatRecord (assignProperty obj key v)"
  by (simp add: flatRecord_def assignProperty_def flat_defineProperty)

lemma flat_foldl_defineProperty:
  "list_all (\<lambda>(k, v). isPrimitive v) ps \<Longrightarrow> list_all (\<lambda>(k, v). isPrimitive v) qs \<Longrightarrow>
     list_all (\<lambda>(k, v). isPrimitive v) (foldl (\<lambda>ps (k, v). defineProperty ps k v) ps qs)"
proof (induction qs arbitrary: ps)
  case Nil
  then show ?case by simp
next
  case (Cons e qs)
  obtain k v where e: "e = (k, v)" by (cases e)
  from Cons.prems have "isPrimitive v" "list_all (\<lambda>(k, v). isPrimitive v) qs"
    by (simp_all add: e)
  with Cons.prems Cons.IH [of "defineProperty ps k v"] show ?case
    by (simp add: e flat_defineProperty)
qed

lemma flatRecord_spread:
  "flatRecord base \<Longrightarrow> flatRecord rec \<Longrightarrow> flatRecord (spread base rec)"
  by (simp add: flatRecord_def spread_def flat_foldl_defineProperty)

lemma flatRecord_foldl_assign:
  "flatRecord base \<Longrightarrow> list_all (\<lambda>(k, v). isPrimitive v) qs \<Longrightarrow>
     flatRecord
       (foldl (\<lambda>bc (recKey, recValue).
                 if \<not> hasOwnProperty bc recKey then assignProperty bc recKey recValue else bc)
          base qs)"
proof (induction qs arbitrary: base)
  case Nil
  then show ?case by simp
next
  case (Cons e qs)
  obtain k v where e: "e = (k, v)" by (cases e)
  from Cons.prems have "isPrimitive v" "list_all (\<lambda>(k, v). isPrimitive v) qs"
    by (simp_all add: e)
  with Cons.prems Cons.IH [of "assignProperty base k v"] Cons.IH [of base] show ?case
    by (simp add: e flatRecord_assignProperty)
qed

lemma flatRecord_mergeMissing:
  "flatRecord base \<Longrightarrow> flatRecord rec \<Longrightarrow> flatRecord (mergeMissing base rec)"
  unfolding mergeMissing_def by (rule flatRecord_foldl_assign) (simp_all add: flatRecord_def)

lemma isPrimitive_joinPrimitives: "isPrimitive (joinPrimitives nstr xs)"
  by (simp add: joinPrimitives_def)

lemma explode_flat:
  "flatRecord parentContext \<Longrightarrow>
     explodeObject nstr v prefix parentContext sourcePath arrayLevel \<noteq> [] \<and>
     list_all flatRecord (explodeObject nstr v prefix parentContext sourcePath arrayLevel)"
  "flatRecord parentContext \<Longrightarrow>
     (items \<noteq> [] \<longrightarrow> explodeItems nstr items idx prefix parentContext sourcePath arrayLevel \<noteq> []) \<and>
     list_all flatRecord (explodeItems nstr items idx prefix parentContext sourcePath arrayLevel)"
  "flatRecord baseContext \<Longrightarrow> list_all flatRecord nestedExplosions \<Longrightarrow>
     flatRecord (fst (explodeEntries nstr es prefix sourcePath arrayLevel baseContext nestedExplosions)) \<and>
     list_all flatRecord (snd (explodeEntries nstr es prefix sourcePath arrayLevel baseContext nestedExplosions))"
proof (induction nstr v prefix parentContext sourcePath arrayLevel
         and nstr items idx prefix parentContext sourcePath arrayLevel
         and nstr es prefix sourcePath arrayLevel baseContext nestedExplosions
       rule: explodeObject_explodeItems_explodeEntries.induct)
  case (1 nstr xs prefix parentContext sourcePath arrayLevel)
  then show ?case
    by (auto simp: flatRecord_withProperty isPrimitive_joinPrimitives Let_def)
next
  case (2 nstr es prefix parentContext sourcePath arrayLevel)
  then show ?case
    by (auto simp: flatRecord_spread flatRecord_copyObject list_all_iff split: prod.splits)
next
  case (5 nstr item rest idx prefix parentContext sourcePath arrayLevel)
  then show ?case
    by (simp add: Let_def flatRecord_withProperty)
next
  case (7 nstr key "value" rest prefix sourcePath arrayLevel baseContext nestedExplosions)
  show ?case
  proof (cases "value")
    case (JArr xs)
    with 7 show ?thesis
      by (simp add: Let_def flatRecord_assignProperty isPrimitive_joinPrimitives)
  next
    case (JObj fs)
    let ?fullKey = "if prefix \<noteq> [] then prefix @ ''_'' @ key else key"
    let ?nested = "explodeObject nstr value ?fullKey baseContext sourcePath arrayLevel"
    from "7.IH"(9) [OF refl JObj "7.prems"(1)]
    have n: "?nested \<noteq> []" "list_all flatRecord ?nested" by simp_all
    show ?thesis
    proof (cases "1 < length ?nested")
      case True
      with "7.IH"(10) [OF refl JObj refl True "7.prems"(1)] n "7.prems" JObj show ?thesis
        by (simp add: Let_def)
    next
      case False
      with n have one: "length ?nested = 1" by (cases ?nested) auto
      then have "flatRecord (hd ?nested)" using n by (cases ?nested) auto
      with "7.IH"(11) [OF refl JObj refl False one] "7.prems" JObj False one show ?thesis
        by (simp add: Let_def flatRecord_mergeMissing)
    qed
  qed (use 7 in \<open>simp_all add: Let_def flatRecord_assignProperty\<close>)
qed (simp_all add: flatRecord_withProperty)

text \<open>
  C3. For every parsed JSON value, null and the empty containers included, the flattener
  returns at least one record, and every record it returns is flat: each of its fields
  holds null, a boolean, a number or a string, never an object or an array.
\<close>

theorem flatten_total_and_flat:
  "data (parseAndFlattenJSON nstr v) \<noteq> []
   \<and> 1 \<le> objectCount (parseAndFlattenJSON nstr v)
   \<and> list_all flatRecord (data (parseAndFlattenJSON nstr v))"
proof -
  have "explodeObject nstr v [] (ordinary []) [] 0 \<noteq> [] \<and>
        list_all flatRecord (explodeObject nstr v [] (ordinary []) [] 0)"
    by (rule explode_flat(1)) (rule flatRecord_empty)
  then show ?thesis
    by (cases "explodeObject nstr v [] (ordinary []) [] 0")
       (simp_all add: parseAndFlattenJSON_def Let_def)
qed

theorem flatten_total_and_flat_witness:
  "data (parseAndFlattenJSON integerToString (JArr [JObj [], JNull, JArr []])) \<noteq> []
   \<and> 1 \<le> objectCount (parseAndFlattenJSON integerToString (JArr [JObj [], JNull, JArr []]))
   \<and> list_all flatRecord
        (data (parseAndFlattenJSON integerToString (JArr [JObj [], JNull, JArr []])))"
  by (rule flatten_total_and_flat)

subsection \<open>Nesting depth\<close>

lemma visitedLevels_nonempty: "visitedLevels v level \<noteq> []"
  by (cases v) simp_all

lemma fold_max_levels:
  fixes c :: nat
  assumes "\<And>x. x \<in> set xs \<Longrightarrow> h x \<noteq> [] \<and> f x = Max (set (h x))"
  shows "fold (\<lambda>v m. max m (f v)) xs c = Max (set (c # concat (map h xs)))"
  using assms
proof (induction xs arbitrary: c)
  case Nil
  then show ?case by simp
next
  case (Cons a xs)
  have a: "h a \<noteq> []" "f a = Max (set (h a))" using Cons.prems by simp_all
  have "fold (\<lambda>v m. max m (f v)) (a # xs) c = Max (set (max c (f a) # concat (map h xs)))"
    using Cons.IH [of "max c (f a)"] Cons.prems by simp
  also have "\<dots> = Max (insert c (set (h a) \<union> set (concat (map h xs))))"
  proof (cases "set (concat (map h xs)) = {}")
    case True
    with a show ?thesis by (simp add: max.commute)
  next
    case False
    have "Max (set (h a) \<union> set (concat (map h xs)))
            = max (Max (set (h a))) (Max (set (concat (map h xs))))"
      using a False by (intro Max_Un) simp_all
    with a False show ?thesis by (simp add: max.assoc max.left_commute)
  qed
  finally show ?case by simp
qed

lemma getNestingLevel_visitedLevels:
  "getNestingLevel v level = Max (set (visitedLevels v level))"
proof (induction v level rule: getNestingLevel.induct)
  case (1 xs currentLevel)
  have "fold (\<lambda>v m. max m (getNestingLevel v (currentLevel + 1))) xs currentLevel
          = Max (set (currentLevel # concat (map (\<lambda>c. visitedLevels c (currentLevel + 1)) xs)))"
    by (rule fold_max_levels) (use 1 in \<open>simp add: visitedLevels_nonempty\<close>)
  then show ?case by simp
next
  case (2 es currentLevel)
  have "fold (\<lambda>v m. max m (getNestingLevel v (currentLevel + 1))) (map snd es) currentLevel
          = Max (set (currentLevel #
                 concat (map (\<lambda>c. visitedLevels c (currentLevel + 1)) (map snd es))))"
    by (rule fold_max_levels) (use 2 in \<open>simp add: visitedLevels_nonempty\<close>)
  then show ?case by simp
qed simp_all

text \<open>
  C4 (as the code has it). The input \<open>{"a":{"b":{"c":1}}}\<close> has nesting depth 3 and flattens
  to the single record \<open>{a_b_c: 1}\<close>. The depth is the greatest level at which a node is
  visited, where the root is visited at level 0 and every child, a container or a
  primitive or null alike, one level below its parent.
\<close>

theorem nesting_depth_is_max_visited_level:
  "maxNestingLevel (parseAndFlattenJSON nstr v) = Max (set (visitedLevels v 0))
   \<and> maxNestingLevel
        (parseAndFlattenJSON nstr (JObj [(''a'', JObj [(''b'', JObj [(''c'', JNum (Finite 1))])])]))
       = 3
   \<and> data (parseAndFlattenJSON nstr (JObj [(''a'', JObj [(''b'', JObj [(''c'', JNum (Finite 1))])])]))
       = [ordinary [(''a_b_c'', JNum (Finite 1))]]"
  by (simp add: parseAndFlattenJSON_def Let_def getNestingLevel_visitedLevels [symmetric]
        mergeMissing_def assignProperty_def defineProperty_def copyObject_def
        hasOwnProperty_def isArrayIndex_def isDigit_def)

theorem nesting_depth_is_max_visited_level_witness:
  "maxNestingLevel (parseAndFlattenJSON integerToString (JArr [JNull]))
     = Max (set (visitedLevels (JArr [JNull]) 0))
   \<and> maxNestingLevel
        (parseAndFlattenJSON integerToString
           (JObj [(''a'', JObj [(''b'', JObj [(''c'', JNum (Finite 1))])])]))
       = 3
   \<and> data (parseAndFlattenJSON integerToString
              (JObj [(''a'', JObj [(''b'', JObj [(''c'', JNum (Finite 1))])])]))
       = [ordinary [(''a_b_c'', JNum (Finite 1))]]"
  by (rule nesting_depth_is_max_visited_level)

text \<open>
  On that input the rule of the specification, under which a primitive has the depth of
  its parent, gives 2 and not the 3 that the code returns.
\<close>

theorem spec_depth_rule_counterexample:
  "maxNestingLevel
     (parseAndFlattenJSON integerToString
        (JObj [(''a'', JObj [(''b'', JObj [(''c'', JNum (Finite 1))])])])) = 3
   \<and> specNestingLevel (JObj [(''a'', JObj [(''b'', JObj [(''c'', JNum (Finite 1))])])]) = 2"
  by (simp add: parseAndFlattenJSON_def Let_def specNestingLevel_def)

text \<open>
  C10. A root empty array flattens to one record whose only field has the empty name and
  holds null; the name \<open>value\<close> is used for a root null or primitive only.
\<close>

theorem root_empty_array_record:
  "data (parseAndFlattenJSON nstr (JArr [])) = [ordinary [([], JNull)]]
   \<and> data (parseAndFlattenJSON nstr JNull) = [ordinary [(''value'', JNull)]]
   \<and> data (parseAndFlattenJSON nstr (JBool b)) = [ordinary [(''value'', JBool b)]]
   \<and> data (parseAndFlattenJSON nstr (JNum n)) = [ordinary [(''value'', JNum n)]]
   \<and> data (parseAndFlattenJSON nstr (JStr s)) = [ordinary [(''value'', JStr s)]]"
  by (simp add: parseAndFlattenJSON_def Let_def withProperty_def defineProperty_def
        isArrayIndex_def isDigit_def)

text \<open>
  C8. On an empty record set \<open>generateSQL\<close> returns the comment \<open>-- No data to convert\<close>
  and \<open>generateCSV\<close> returns the empty text; neither raises.
\<close>

theorem generators_on_empty_record_set:
  "generateSQL nstr now [] tableName = ''-- No data to convert''
   \<and> generateCSV nstr [] = []"
  by (simp add: generateSQL_def generateCSV_def)

subsection \<open>Arrays of primitives\<close>

lemma map_of_updateProperty_same:
  "key \<in> fst ` set ps \<Longrightarrow> map_of (updateProperty ps key v) key = Some v"
  by (induction ps key v rule: updateProperty.induct) auto

lemma map_of_insertIndexed_same:
  "key \<notin> fst ` set ps \<Longrightarrow> map_of (insertIndexed ps key v) key = Some v"
  by (induction ps key v rule: insertIndexed.induct) auto

lemma map_of_defineProperty_same: "map_of (defineProperty ps key v) key = Some v"
proof (cases "key \<in> fst ` set ps")
  case True
  then show ?thesis
    by (simp add: defineProperty_def map_of_updateProperty_same)
next
  case False
  then have "map_of ps key = None"
    by (simp add: map_of_eq_None_iff)
  with False show ?thesis
    by (simp add: defineProperty_def map_of_insertIndexed_same map_of_append map_add_def)
qed

lemma getProperty_withProperty_same: "getProperty (withProperty base key v) key = Value v"
  by (simp add: getProperty_def withProperty_def map_of_defineProperty_same)

lemma assignProperty_stores:
  "key \<noteq> ''__proto__'' \<Longrightarrow>
     assignProperty obj key v = obj\<lparr>props := defineProperty (props obj) key v\<rparr>"
  by (simp add: assignProperty_def)

lemma getProperty_assignProperty_same:
  "key \<noteq> ''__proto__'' \<Longrightarrow> getProperty (assignProperty obj key v) key = Value v"
  by (simp add: assignProperty_stores getProperty_def map_of_defineProperty_same)

lemma arrayJoin_without_null:
  "arrayJoin nstr sep (filter (\<lambda>x. x \<noteq> JNull) xs)
     = joinWith sep (map (toStr nstr) (filter (\<lambda>x. x \<noteq> JNull) xs))"
proof -
  have "map (\<lambda>x. if x = JNull then [] else toStr nstr x) (filter (\<lambda>x. x \<noteq> JNull) xs)
          = map (toStr nstr) (filter (\<lambda>x. x \<noteq> JNull) xs)"
    by (rule map_cong) simp_all
  then show ?thesis unfolding arrayJoin_def by (rule arg_cong)
qed

lemma joinPrimitives_joinedField:
  "xs \<noteq> [] \<Longrightarrow> joinPrimitives nstr xs = joinedField nstr xs"
  by (simp add: joinPrimitives_def joinedField_def arrayJoin_without_null)

lemma defineProperty_empty: "defineProperty [] key v = [(key, v)]"
  by (simp add: defineProperty_def)

lemma joinedField_not_null: "xs \<noteq> [] \<Longrightarrow> joinedField nstr xs \<noteq> JNull"
  by (simp add: joinedField_def)

text \<open>
  C5. An array whose elements are all primitives or nulls adds no record of its own, and
  its field is null when the array is empty and otherwise the single string of the
  texts of its non-null elements, joined with a comma and a space. The array itself,
  under any prefix and parent context, gives the one record that holds this field: the
  record is an object literal with a computed key. For an array that is the value of an
  object entry the field is assigned to the base record under the joined key, and the
  assignment stores it unless that key is \<open>__proto__\<close>: \<open>{"tags":["x","y",null]}\<close> gives the
  one record \<open>{tags: "x, y"}\<close>, but \<open>{"__proto__":["x","y",null]}\<close> gives the one record
  \<open>{}\<close>, without the field.
\<close>

theorem primitive_array_field_and_proto_key:
  assumes "list_all isPrimitive xs"
  shows
    "explodeObject nstr (JArr xs) prefix parentContext sourcePath arrayLevel
       = [withProperty parentContext prefix (joinedField nstr xs)]
     \<and> getProperty (withProperty parentContext prefix (joinedField nstr xs)) prefix
         = Value (joinedField nstr xs)
     \<and> explodeEntries nstr ((key, JArr xs) # rest) prefix sourcePath arrayLevel
           baseContext nestedExplosions
         = explodeEntries nstr rest prefix sourcePath arrayLevel
             (assignProperty baseContext (if prefix \<noteq> [] then prefix @ ''_'' @ key else key)
                (joinedField nstr xs))
             nestedExplosions
     \<and> (fullKey \<noteq> ''__proto__'' \<longrightarrow>
          getProperty (assignProperty baseContext fullKey (joinedField nstr xs)) fullKey
            = Value (joinedField nstr xs))
     \<and> (key \<noteq> ''__proto__'' \<longrightarrow>
          data (parseAndFlattenJSON nstr (JObj [(key, JArr xs)]))
            = [ordinary [(key, joinedField nstr xs)]])
     \<and> (xs \<noteq> [] \<longrightarrow>
          data (parseAndFlattenJSON nstr (JObj [(''__proto__'', JArr xs)])) = [ordinary []])
     \<and> joinedField nstr [] = JNull
     \<and> data (parseAndFlattenJSON nstr (JObj [(''tags'', JArr [JStr ''x'', JStr ''y'', JNull])]))
         = [ordinary [(''tags'', JStr ''x, y'')]]
     \<and> data (parseAndFlattenJSON nstr
                (JObj [(''__proto__'', JArr [JStr ''x'', JStr ''y'', JNull])]))
         = [ordinary []]"
proof -
  have field: "(if xs = [] then JNull else joinPrimitives nstr xs) = joinedField nstr xs"
    by (simp add: joinPrimitives_joinedField) (simp add: joinedField_def)
  have 1: "explodeObject nstr (JArr xs) prefix parentContext sourcePath arrayLevel
             = [withProperty parentContext prefix (joinedField nstr xs)]"
    using assms field by (cases "xs = []") simp_all
  have 3: "explodeEntries nstr ((k, JArr xs) # r) p sp lvl b n
           = explodeEntries nstr r p sp lvl
               (assignProperty b (if p \<noteq> [] then p @ ''_'' @ k else k) (joinedField nstr xs)) n"
    for k r p sp lvl b n
    using assms field by (cases "xs = []") (simp_all add: Let_def)
  have 5: "data (parseAndFlattenJSON nstr (JObj [(key, JArr xs)]))
             = [ordinary [(key, joinedField nstr xs)]]" if "key \<noteq> ''__proto__''"
    using that
    by (simp add: parseAndFlattenJSON_def Let_def 3 copyObject_def assignProperty_stores
          defineProperty_empty del: explodeEntries.simps(2))
  have 6: "data (parseAndFlattenJSON nstr (JObj [(''__proto__'', JArr xs)])) = [ordinary []]"
    if "xs \<noteq> []"
    using joinedField_not_null [OF that, of nstr]
    by (simp add: parseAndFlattenJSON_def Let_def 3 copyObject_def assignProperty_def
          hasOwnProperty_def del: explodeEntries.simps(2))
  have 8: "data (parseAndFlattenJSON nstr (JObj [(''tags'', JArr [JStr ''x'', JStr ''y'', JNull])]))
             = [ordinary [(''tags'', JStr ''x, y'')]]"
    by (simp add: parseAndFlattenJSON_def Let_def copyObject_def assignProperty_def
          defineProperty_empty joinPrimitives_def arrayJoin_def)
  have 9: "data (parseAndFlattenJSON nstr
                   (JObj [(''__proto__'', JArr [JStr ''x'', JStr ''y'', JNull])]))
             = [ordinary []]"
    by (simp add: parseAndFlattenJSON_def Let_def copyObject_def assignProperty_def
          hasOwnProperty_def joinPrimitives_def)
  show ?thesis
    using 1 3 5 6 8 9
    by (simp add: getProperty_withProperty_same getProperty_assignProperty_same)
       (simp add: joinedField_def)
qed

theorem primitive_array_field_and_proto_key_witness:
  "list_all isPrimitive [JStr ''x'', JNum (Finite 2), JBool True, JNull]
   \<and> ''tags'' \<noteq> ''__proto__''
   \<and> [JStr ''x'', JNum (Finite 2), JBool True, JNull] \<noteq> []
   \<and> data (parseAndFlattenJSON integerToString
             (JObj [(''tags'', JArr [JStr ''x'', JNum (Finite 2), JBool True, JNull])]))
       = [ordinary [(''tags'', JStr ''x, 2, true'')]]
   \<and> data (parseAndFlattenJSON integerToString
             (JObj [(''__proto__'', JArr [JStr ''x'', JNum (Finite 2), JBool True, JNull])]))
       = [ordinary []]
   \<and> getProperty
         (assignProperty (ordinary []) ''tags''
            (joinedField integerToString [JStr ''x'', JNum (Finite 2), JBool True, JNull]))
         ''tags''
       = Value (JStr ''x, 2, true'')"
proof -
  have h: "list_all isPrimitive [JStr ''x'', JNum (Finite 2), JBool True, JNull]"
    by simp
  have two: "natToString 2 = ''2''"
    by (subst natToString.simps) simp
  from primitive_array_field_and_proto_key
         [OF h, of integerToString "[]" "ordinary []" "[]" 0 "''tags''" "[]" "ordinary []" "[]"
            "''tags''"]
  show ?thesis
    using h by (simp add: joinedField_def integerToString_def two)
qed

subsection \<open>The type of a column\<close>














subsection \<open>Member reads\<close>

lemma getProperty_missing:
  "\<not> hasOwnProperty record key \<Longrightarrow>
     getProperty record key = (if nullProto record then Undefined else objectPrototypeMember key)"
  by (simp add: getProperty_def hasOwnProperty_def map_of_eq_None_iff [THEN iffD2])

lemma objectPrototypeMember_other:
  "key \<noteq> ''__proto__'' \<Longrightarrow> key \<noteq> ''constructor'' \<Longrightarrow> key \<notin> set objectPrototypeFunctions \<Longrightarrow>
     objectPrototypeMember key = Undefined"
  by (simp add: objectPrototypeMember_def)

lemma natToString_digit: "n < 10 \<Longrightarrow> natToString n = [''0123456789'' ! n]"
  by (subst natToString.simps) simp

lemma integerToString_small:
  "integerToString (Finite 0) = ''0''"
  "integerToString (Finite 1) = ''1''"
  "integerToString (Finite 2) = ''2''"
  by (simp_all add: integerToString_def natToString_digit)

text \<open>
  The records of \<open>[{"constructor":1},{"a":2}]\<close>: the second has no own property
  \<open>constructor\<close>.
\<close>

lemma inherited_constructor_records:
  "data (parseAndFlattenJSON integerToString
           (JArr [JObj [(''constructor'', JNum (Finite 1))], JObj [(''a'', JNum (Finite 2))]]))
     = [ordinary [(''_index_level_0'', JNum (Finite 0)), (''constructor'', JNum (Finite 1))],
        ordinary [(''_index_level_0'', JNum (Finite 1)), (''a'', JNum (Finite 2))]]"
  by (simp add: parseAndFlattenJSON_def Let_def withProperty_def copyObject_def
        assignProperty_def defineProperty_def hasOwnProperty_def isArrayIndex_def isDigit_def
        indexNumber_def integerToString_small)

subsection \<open>Quoting\<close>

lemma replaceAll_doubled: "replaceAll q [q, q] s = doubled q s"
  by (induction s) (simp_all add: replaceAll_def)

lemma startsWithFormulaChar_take:
  "startsWithFormulaChar s \<longleftrightarrow> take 1 s \<in> {''='', ''+'', ''-'', ''@''}"
  by (cases s) (auto simp: startsWithFormulaChar_def)

lemma escapeCSVValue_value:
  "m \<noteq> Undefined \<Longrightarrow> m \<noteq> Value JNull \<Longrightarrow>
     escapeCSVValue nstr m
       = (if needsQuoting (stringValue nstr m) then quoted dquote (stringValue nstr m)
          else stringValue nstr m)"
  by (simp add: escapeCSVValue_def Let_def needsQuoting_def quoted_def stringIncludes_def
        startsWithFormulaChar_take replaceAll_doubled)

lemma wrapped_needsQuoting: "s = dquote # body @ [dquote] \<Longrightarrow> needsQuoting s"
  by (simp add: needsQuoting_def)

lemma generateCSV_rows:
  "records \<noteq> [] \<Longrightarrow>
     generateCSV nstr records
       = joinWith [lineFeed]
           (joinWith '','' (map (\<lambda>h. escapeCSVValue nstr (Value (JStr h))) (csvHeaders records))
            # map (\<lambda>record.
                     joinWith '','' (map (\<lambda>h. escapeCSVValue nstr (getProperty record h))
                                       (csvHeaders records)))
                records)"
  by (simp add: generateCSV_def Let_def)

text \<open>
  C6. In the CSV text every field is \<open>escapeCSVValue\<close> of the value read from the record
  under the column name (a header cell, of the column name). An undefined or null value
  gives the empty field. Any other value is written through its string form: between
  double quotes, with every double quote inside doubled, exactly when the string form
  contains a comma, a double quote, a line feed or a carriage return, or begins with \<open>=\<close>,
  \<open>+\<close>, \<open>-\<close> or \<open>@\<close>; and as it is otherwise. So \<open>a,b\<close> is written \<open>"a,b"\<close> and \<open>=1+1\<close> is
  written \<open>"=1+1"\<close>. The value read for a column that the record does not have is
  undefined when the record has no prototype or \<^verbatim>\<open>Object.prototype\<close> has no member of that
  name; for a name such as \<open>constructor\<close> or \<open>toString\<close> it is the inherited member, and the
  field is not empty: the CSV of \<open>[{"constructor":1},{"a":2}]\<close> has the text of the
  function \<open>Object\<close> in the second row.
\<close>

theorem csv_fields_and_inherited_members:
  "escapeCSVValue nstr Undefined = []
   \<and> escapeCSVValue nstr (Value JNull) = []
   \<and> (m \<noteq> Undefined \<longrightarrow> m \<noteq> Value JNull \<longrightarrow>
        escapeCSVValue nstr m
          = (if needsQuoting (stringValue nstr m) then quoted dquote (stringValue nstr m)
             else stringValue nstr m))
   \<and> (m \<noteq> Undefined \<longrightarrow> m \<noteq> Value JNull \<longrightarrow>
        ((\<exists>body. escapeCSVValue nstr m = dquote # body @ [dquote])
           \<longleftrightarrow> needsQuoting (stringValue nstr m)))
   \<and> (records \<noteq> [] \<longrightarrow>
        generateCSV nstr records
          = joinWith [lineFeed]
              (joinWith '','' (map (\<lambda>h. escapeCSVValue nstr (Value (JStr h))) (csvHeaders records))
               # map (\<lambda>record.
                        joinWith '','' (map (\<lambda>h. escapeCSVValue nstr (getProperty record h))
                                          (csvHeaders records)))
                   records))
   \<and> (\<not> hasOwnProperty record h \<longrightarrow>
        escapeCSVValue nstr (getProperty record h)
          = (if nullProto record then [] else escapeCSVValue nstr (objectPrototypeMember h)))
   \<and> (h \<noteq> ''__proto__'' \<longrightarrow> h \<noteq> ''constructor'' \<longrightarrow> h \<notin> set objectPrototypeFunctions \<longrightarrow>
        escapeCSVValue nstr (objectPrototypeMember h) = [])
   \<and> escapeCSVValue nstr (Value (JStr ''a,b'')) = [dquote] @ ''a,b'' @ [dquote]
   \<and> escapeCSVValue nstr (Value (JStr ''=1+1'')) = [dquote] @ ''=1+1'' @ [dquote]
   \<and> generateCSV integerToString
         (data (parseAndFlattenJSON integerToString
                  (JArr [JObj [(''constructor'', JNum (Finite 1))],
                         JObj [(''a'', JNum (Finite 2))]])))
       = ''_index_level_0,constructor,a'' @ [lineFeed] @ ''0,1,'' @ [lineFeed]
         @ ''1,function Object() { [native code] },2''"
proof (intro conjI impI)
  assume v: "m \<noteq> Undefined" "m \<noteq> Value JNull"
  show "(\<exists>body. escapeCSVValue nstr m = dquote # body @ [dquote])
          \<longleftrightarrow> needsQuoting (stringValue nstr m)"
  proof
    assume "\<exists>body. escapeCSVValue nstr m = dquote # body @ [dquote]"
    then obtain body where b: "escapeCSVValue nstr m = dquote # body @ [dquote]" ..
    show "needsQuoting (stringValue nstr m)"
    proof (rule ccontr)
      assume n: "\<not> needsQuoting (stringValue nstr m)"
      with v b have "stringValue nstr m = dquote # body @ [dquote]"
        by (simp add: escapeCSVValue_value)
      with n show False by (simp add: wrapped_needsQuoting)
    qed
  next
    assume "needsQuoting (stringValue nstr m)"
    with v have "escapeCSVValue nstr m = dquote # doubled dquote (stringValue nstr m) @ [dquote]"
      by (simp add: escapeCSVValue_value quoted_def)
    then show "\<exists>body. escapeCSVValue nstr m = dquote # body @ [dquote]" ..
  qed
next
  assume "\<not> hasOwnProperty record h"
  then show "escapeCSVValue nstr (getProperty record h)
          = (if nullProto record then [] else escapeCSVValue nstr (objectPrototypeMember h))"
    by (simp add: getProperty_missing) (simp add: escapeCSVValue_def)
next
  assume "h \<noteq> ''__proto__''" "h \<noteq> ''constructor''" "h \<notin> set objectPrototypeFunctions"
  then show "escapeCSVValue nstr (objectPrototypeMember h) = []"
    by (simp add: objectPrototypeMember_other) (simp add: escapeCSVValue_def)
next
  show "generateCSV integerToString
         (data (parseAndFlattenJSON integerToString
                  (JArr [JObj [(''constructor'', JNum (Finite 1))],
                         JObj [(''a'', JNum (Finite 2))]])))
       = ''_index_level_0,constructor,a'' @ [lineFeed] @ ''0,1,'' @ [lineFeed]
         @ ''1,function Object() { [native code] },2''"
    unfolding inherited_constructor_records
    by (simp add: generateCSV_def Let_def csvHeaders_def columnMapAdd_def getProperty_def
          objectPrototypeMember_def objectPrototypeFunctions_def escapeCSVValue_def
          stringIncludes_def startsWithFormulaChar_def integerToString_small)
qed (simp_all add: escapeCSVValue_value generateCSV_rows,
     simp_all add: escapeCSVValue_def needsQuoting_def quoted_def)

theorem csv_fields_and_inherited_members_witness:
  "Value (JStr (''x'' @ [dquote] @ ''y'')) \<noteq> Undefined
   \<and> Value (JStr (''x'' @ [dquote] @ ''y'')) \<noteq> Value JNull
   \<and> escapeCSVValue integerToString (Value (JStr (''x'' @ [dquote] @ ''y'')))
       = [dquote] @ ''x'' @ [dquote, dquote] @ ''y'' @ [dquote]
   \<and> [ordinary [(''k'', JStr ''a,b''), (''f'', JStr ''=1+1'')],
       ordinary [(''k'', JNull), (''n'', JBool True)]] \<noteq> []
   \<and> generateCSV integerToString
        [ordinary [(''k'', JStr ''a,b''), (''f'', JStr ''=1+1'')],
         ordinary [(''k'', JNull), (''n'', JBool True)]]
       = ''k,f,n'' @ [lineFeed] @ [dquote] @ ''a,b'' @ [dquote] @ '','' @ [dquote] @ ''=1+1''
         @ [dquote] @ '','' @ [lineFeed] @ '',,true''
   \<and> \<not> hasOwnProperty (ordinary [(''k'', JNull), (''n'', JBool True)]) ''f''
   \<and> escapeCSVValue integerToString
         (getProperty (ordinary [(''k'', JNull), (''n'', JBool True)]) ''f'') = []
   \<and> ''f'' \<noteq> ''__proto__'' \<and> ''f'' \<noteq> ''constructor'' \<and> ''f'' \<notin> set objectPrototypeFunctions"
  using csv_fields_and_inherited_members
          [of integerToString "Value (JStr (''x'' @ [dquote] @ ''y''))"
              "[ordinary [(''k'', JStr ''a,b''), (''f'', JStr ''=1+1'')],
                ordinary [(''k'', JNull), (''n'', JBool True)]]"
              "ordinary [(''k'', JNull), (''n'', JBool True)]" "''f''"]
  by (simp add: needsQuoting_def quoted_def csvHeaders_def columnMapAdd_def
        getProperty_def escapeCSVValue_def Let_def stringIncludes_def
        startsWithFormulaChar_def replaceAll_def hasOwnProperty_def objectPrototypeMember_def
        objectPrototypeFunctions_def)

subsection \<open>SQL values\<close>

lemma sqlValue_text:
  "isStringLike m \<Longrightarrow> sqlValue nstr m = quoted squote (memberToString nstr m)"
  by (cases m rule: isStringLike.cases)
     (simp_all add: sqlValue_def quoted_def replaceAll_doubled)

lemma generateSQL_inserts:
  assumes "records \<noteq> []"
  shows "\<exists>head. generateSQL nstr now records tableName
       = head @ joinWith [lineFeed]
           (map (\<lambda>record.
                   ''INSERT INTO '' @ escapeIdentifier (sanitizeTableName tableName) @ '' (''
                   @ joinWith '', '' (map escapeIdentifier (sqlColumns records))
                   @ '') VALUES (''
                   @ joinWith '', ''
                       (map (\<lambda>col. sqlValue nstr (getProperty record col)) (sqlColumns records))
                   @ '');'')
              records)"
proof -
  let ?safe = "sanitizeTableName tableName"
  let ?columns = "sqlColumns records"
  let ?types =
    "map (\<lambda>col. (col, inferSQLType nstr col (map (\<lambda>record. getProperty record col) records)))
       ?columns"
  let ?head =
    "''-- SQL Generated: '' @ now @ [lineFeed] @ ''-- Table: '' @ ?safe @ [lineFeed]
     @ ''-- Records: '' @ nstr (indexNumber (length records)) @ [lineFeed, lineFeed]
     @ joinWith [lineFeed] (createTableLines ?safe ?columns ?types) @ [lineFeed, lineFeed]"
  have "generateSQL nstr now records tableName
          = ?head @ joinWith [lineFeed] (map (insertStatement nstr ?safe ?columns) records)"
    using assms by (simp add: generateSQL_def Let_def)
  also have "map (insertStatement nstr ?safe ?columns) records
          = map (\<lambda>record.
                   ''INSERT INTO '' @ escapeIdentifier ?safe @ '' (''
                   @ joinWith '', '' (map escapeIdentifier ?columns)
                   @ '') VALUES (''
                   @ joinWith '', '' (map (\<lambda>col. sqlValue nstr (getProperty record col)) ?columns)
                   @ '');'')
              records"
    by (simp add: insertStatement_def Let_def)
  finally show ?thesis by (rule exI [of _ ?head])
qed

lemma inherited_constructor_inserts:
  "\<exists>head.
     generateSQL integerToString now
         (data (parseAndFlattenJSON integerToString
                  (JArr [JObj [(''constructor'', JNum (Finite 1))],
                         JObj [(''a'', JNum (Finite 2))]])))
         ''converted_data''
       = head
         @ ''INSERT INTO '' @ [dquote] @ ''converted_data'' @ [dquote] @ '' ('' @ [dquote]
         @ ''_index_level_0'' @ [dquote] @ '', '' @ [dquote] @ ''constructor'' @ [dquote]
         @ '', '' @ [dquote] @ ''a'' @ [dquote] @ '') VALUES (0, 1, NULL);'' @ [lineFeed]
         @ ''INSERT INTO '' @ [dquote] @ ''converted_data'' @ [dquote] @ '' ('' @ [dquote]
         @ ''_index_level_0'' @ [dquote] @ '', '' @ [dquote] @ ''constructor'' @ [dquote]
         @ '', '' @ [dquote] @ ''a'' @ [dquote] @ '') VALUES (1, '' @ [squote]
         @ ''function Object() { [native code] }'' @ [squote] @ '', 2);''"
proof -
  let ?records =
    "[ordinary [(''_index_level_0'', JNum (Finite 0)), (''constructor'', JNum (Finite 1))],
      ordinary [(''_index_level_0'', JNum (Finite 1)), (''a'', JNum (Finite 2))]]"
  have "?records \<noteq> []" by simp
  from generateSQL_inserts [OF this, of integerToString now "''converted_data''"]
  show ?thesis
    unfolding inherited_constructor_records
    by (simp add: sqlColumns_def columnSetAdd_def escapeIdentifier_def replaceAll_def
          sanitizeTableName_def isWordChar_def getProperty_def objectPrototypeMember_def
          objectPrototypeFunctions_def sqlValue_def integerToString_small)
qed

text \<open>
  C7. Every \<^verbatim>\<open>INSERT\<close> statement of \<open>generateSQL\<close> lists, in column order, the rendering of
  the value read from the record under each column: \<open>NULL\<close> for undefined and null; for a
  number its text if it is finite and \<open>NULL\<close> if it is not (no error); \<open>TRUE\<close> or \<open>FALSE\<close>
  for a boolean; and for anything else its text between single quotes, with every single
  quote inside doubled and nothing else changed. The value read for a column that the
  record does not have is undefined when the record has no prototype or
  \<^verbatim>\<open>Object.prototype\<close> has no member of that name; for a name such as \<open>constructor\<close> or
  \<open>toString\<close> it is the inherited member, which is rendered as a quoted text and not as
  \<open>NULL\<close>: so in the second \<^verbatim>\<open>INSERT\<close> of \<open>[{"constructor":1},{"a":2}]\<close>.
\<close>

theorem sql_values_and_inherited_members:
  "sqlValue nstr Undefined = ''NULL''
   \<and> sqlValue nstr (Value JNull) = ''NULL''
   \<and> sqlValue nstr (Value (JNum n)) = (if isFinite n then nstr n else ''NULL'')
   \<and> sqlValue nstr (Value (JBool b)) = (if b then ''TRUE'' else ''FALSE'')
   \<and> sqlValue nstr (Value (JStr s)) = quoted squote s
   \<and> (isStringLike m \<longrightarrow> sqlValue nstr m = quoted squote (memberToString nstr m))
   \<and> (records \<noteq> [] \<longrightarrow>
        (\<exists>head. generateSQL nstr now records tableName
           = head @ joinWith [lineFeed]
               (map (\<lambda>record.
                       ''INSERT INTO '' @ escapeIdentifier (sanitizeTableName tableName) @ '' (''
                       @ joinWith '', '' (map escapeIdentifier (sqlColumns records))
                       @ '') VALUES (''
                       @ joinWith '', ''
                           (map (\<lambda>col. sqlValue nstr (getProperty record col))
                              (sqlColumns records))
                       @ '');'')
                  records)))
   \<and> (\<not> hasOwnProperty record col \<longrightarrow>
        sqlValue nstr (getProperty record col)
          = (if nullProto record then ''NULL'' else sqlValue nstr (objectPrototypeMember col)))
   \<and> (col \<noteq> ''__proto__'' \<longrightarrow> col \<noteq> ''constructor'' \<longrightarrow> col \<notin> set objectPrototypeFunctions \<longrightarrow>
        sqlValue nstr (objectPrototypeMember col) = ''NULL'')
   \<and> (\<exists>head.
         generateSQL integerToString now
             (data (parseAndFlattenJSON integerToString
                      (JArr [JObj [(''constructor'', JNum (Finite 1))],
                             JObj [(''a'', JNum (Finite 2))]])))
             ''converted_data''
           = head
             @ ''INSERT INTO '' @ [dquote] @ ''converted_data'' @ [dquote] @ '' ('' @ [dquote]
             @ ''_index_level_0'' @ [dquote] @ '', '' @ [dquote] @ ''constructor'' @ [dquote]
             @ '', '' @ [dquote] @ ''a'' @ [dquote] @ '') VALUES (0, 1, NULL);'' @ [lineFeed]
             @ ''INSERT INTO '' @ [dquote] @ ''converted_data'' @ [dquote] @ '' ('' @ [dquote]
             @ ''_index_level_0'' @ [dquote] @ '', '' @ [dquote] @ ''constructor'' @ [dquote]
             @ '', '' @ [dquote] @ ''a'' @ [dquote] @ '') VALUES (1, '' @ [squote]
             @ ''function Object() { [native code] }'' @ [squote] @ '', 2);'')"
proof (intro conjI impI)
  show "sqlValue nstr (Value (JStr s)) = quoted squote s"
    using sqlValue_text [of "Value (JStr s)" nstr] by simp
next
  assume "isStringLike m"
  then show "sqlValue nstr m = quoted squote (memberToString nstr m)"
    by (rule sqlValue_text)
next
  assume "records \<noteq> []"
  then show "\<exists>head. generateSQL nstr now records tableName
       = head @ joinWith [lineFeed]
           (map (\<lambda>record.
                   ''INSERT INTO '' @ escapeIdentifier (sanitizeTableName tableName) @ '' (''
                   @ joinWith '', '' (map escapeIdentifier (sqlColumns records))
                   @ '') VALUES (''
                   @ joinWith '', ''
                       (map (\<lambda>col. sqlValue nstr (getProperty record col)) (sqlColumns records))
                   @ '');'')
              records)"
    by (rule generateSQL_inserts)
next
  assume "\<not> hasOwnProperty record col"
  then show "sqlValue nstr (getProperty record col)
          = (if nullProto record then ''NULL'' else sqlValue nstr (objectPrototypeMember col))"
    by (simp add: getProperty_missing) (simp add: sqlValue_def)
next
  assume "col \<noteq> ''__proto__''" "col \<noteq> ''constructor''" "col \<notin> set objectPrototypeFunctions"
  then show "sqlValue nstr (objectPrototypeMember col) = ''NULL''"
    by (simp add: objectPrototypeMember_other) (simp add: sqlValue_def)
next
  show "\<exists>head.
         generateSQL integerToString now
             (data (parseAndFlattenJSON integerToString
                      (JArr [JObj [(''constructor'', JNum (Finite 1))],
                             JObj [(''a'', JNum (Finite 2))]])))
             ''converted_data''
           = head
             @ ''INSERT INTO '' @ [dquote] @ ''converted_data'' @ [dquote] @ '' ('' @ [dquote]
             @ ''_index_level_0'' @ [dquote] @ '', '' @ [dquote] @ ''constructor'' @ [dquote]
             @ '', '' @ [dquote] @ ''a'' @ [dquote] @ '') VALUES (0, 1, NULL);'' @ [lineFeed]
             @ ''INSERT INTO '' @ [dquote] @ ''converted_data'' @ [dquote] @ '' ('' @ [dquote]
             @ ''_index_level_0'' @ [dquote] @ '', '' @ [dquote] @ ''constructor'' @ [dquote]
             @ '', '' @ [dquote] @ ''a'' @ [dquote] @ '') VALUES (1, '' @ [squote]
             @ ''function Object() { [native code] }'' @ [squote] @ '', 2);''"
    by (rule inherited_constructor_inserts)
qed (simp_all add: sqlValue_def)

theorem sql_values_and_inherited_members_witness:
  "sqlValue integerToString (Value (JNum PosInfinity)) = ''NULL''
   \<and> sqlValue integerToString (Value (JNum NaN)) = ''NULL''
   \<and> sqlValue integerToString (Value (JNum (Finite 2))) = ''2''
   \<and> isStringLike (Value (JArr [JStr (''it'' @ [squote] @ ''s''), JNull, JBool True]))
   \<and> sqlValue integerToString
         (Value (JArr [JStr (''it'' @ [squote] @ ''s''), JNull, JBool True]))
       = [squote] @ ''it'' @ [squote, squote] @ ''s,,true'' @ [squote]
   \<and> sqlValue integerToString (Value (JStr (''it'' @ [squote] @ ''s'')))
       = [squote] @ ''it'' @ [squote, squote] @ ''s'' @ [squote]
   \<and> [ordinary [(''a'', JStr ''x''), (''b'', JNull)], ordinary [(''c'', JBool False)]] \<noteq> []
   \<and> (\<exists>head.
         generateSQL integerToString ''2026-01-01T00:00:00.000Z''
             [ordinary [(''a'', JStr ''x''), (''b'', JNull)], ordinary [(''c'', JBool False)]]
             ''my table''
           = head
             @ ''INSERT INTO '' @ [dquote] @ ''my_table'' @ [dquote] @ '' ('' @ [dquote] @ ''a''
             @ [dquote] @ '', '' @ [dquote] @ ''b'' @ [dquote] @ '', '' @ [dquote] @ ''c''
             @ [dquote] @ '') VALUES ('' @ [squote] @ ''x'' @ [squote] @ '', NULL, NULL);''
             @ [lineFeed]
             @ ''INSERT INTO '' @ [dquote] @ ''my_table'' @ [dquote] @ '' ('' @ [dquote] @ ''a''
             @ [dquote] @ '', '' @ [dquote] @ ''b'' @ [dquote] @ '', '' @ [dquote] @ ''c''
             @ [dquote] @ '') VALUES (NULL, NULL, FALSE);'')
   \<and> \<not> hasOwnProperty (ordinary [(''c'', JBool False)]) ''a''
   \<and> sqlValue integerToString (getProperty (ordinary [(''c'', JBool False)]) ''a'') = ''NULL''
   \<and> ''a'' \<noteq> ''__proto__'' \<and> ''a'' \<noteq> ''constructor'' \<and> ''a'' \<notin> set objectPrototypeFunctions"
  using sql_values_and_inherited_members
          [of integerToString PosInfinity True "''it'' @ [squote] @ ''s''"
              "Value (JArr [JStr (''it'' @ [squote] @ ''s''), JNull, JBool True])"
              "[ordinary [(''a'', JStr ''x''), (''b'', JNull)], ordinary [(''c'', JBool False)]]"
              "''2026-01-01T00:00:00.000Z''" "''my table''"
              "ordinary [(''c'', JBool False)]" "''a''"]
        sql_values_and_inherited_members [of integerToString NaN]
        sql_values_and_inherited_members [of integerToString "Finite 2"]
  by (simp add: quoted_def integerToString_small sqlColumns_def columnSetAdd_def
        escapeIdentifier_def replaceAll_def sanitizeTableName_def isWordChar_def
        getProperty_def sqlValue_def hasOwnProperty_def objectPrototypeMember_def
        objectPrototypeFunctions_def)

subsection \<open>Column order\<close>

lemma remdups_append_seen: "k \<in> set ys \<Longrightarrow> remdups (xs @ k # ys) = remdups (xs @ ys)"
  by (induction xs) simp_all

lemma firstSeen_seen: "k \<in> set cs \<Longrightarrow> firstSeen (cs @ k # ks) = firstSeen (cs @ ks)"
  by (simp add: firstSeen_def remdups_append_seen)

lemma firstSeen_distinct: "distinct cs \<Longrightarrow> firstSeen cs = cs"
  by (simp add: firstSeen_def distinct_remdups_id)

lemma distinct_firstSeen: "distinct (firstSeen ks)"
  by (simp add: firstSeen_def)

lemma set_firstSeen: "set (firstSeen ks) = set ks"
  by (simp add: firstSeen_def)

lemma remdups_append_filter:
  "remdups (xs @ ys) = filter (\<lambda>k. k \<notin> set ys) (remdups xs) @ remdups ys"
  by (induction xs) auto

lemma firstSeen_append:
  "firstSeen (ks @ rest) = firstSeen ks @ filter (\<lambda>k. k \<notin> set ks) (firstSeen rest)"
proof -
  have "remdups (rev rest @ rev ks)
          = filter (\<lambda>k. k \<notin> set (rev ks)) (remdups (rev rest)) @ remdups (rev ks)"
    by (rule remdups_append_filter)
  then show ?thesis
    by (simp add: firstSeen_def rev_filter)
qed

lemma firstSeen_firstSeen_append: "firstSeen (firstSeen xs @ ys) = firstSeen (xs @ ys)"
  by (simp add: firstSeen_def remdups_append2)

lemma distinct_columnSetAdd: "distinct cs \<Longrightarrow> distinct (columnSetAdd cs k)"
  by (simp add: columnSetAdd_def)

lemma foldl_columnSetAdd:
  "distinct cs \<Longrightarrow> foldl columnSetAdd cs ks = firstSeen (cs @ ks)"
proof (induction ks arbitrary: cs)
  case Nil
  then show ?case by (simp add: firstSeen_distinct)
next
  case (Cons k ks)
  have "foldl columnSetAdd (columnSetAdd cs k) ks = firstSeen (columnSetAdd cs k @ ks)"
    using Cons.prems by (intro Cons.IH distinct_columnSetAdd)
  also have "\<dots> = firstSeen (cs @ k # ks)"
    by (simp add: columnSetAdd_def firstSeen_seen)
  finally show ?case by simp
qed

lemma foldl_records_columnSetAdd:
  "distinct cs \<Longrightarrow>
     foldl (\<lambda>columnSet record. foldl columnSetAdd columnSet (map fst (props record))) cs records
       = firstSeen (cs @ allKeys records)"
proof (induction records arbitrary: cs)
  case Nil
  then show ?case by (simp add: allKeys_def firstSeen_distinct)
next
  case (Cons r records)
  have "foldl (\<lambda>columnSet record. foldl columnSetAdd columnSet (map fst (props record)))
          (firstSeen (cs @ map fst (props r))) records
        = firstSeen (firstSeen (cs @ map fst (props r)) @ allKeys records)"
    by (rule Cons.IH) (rule distinct_firstSeen)
  with Cons.prems show ?case
    by (simp add: foldl_columnSetAdd firstSeen_firstSeen_append allKeys_def)
qed

lemma sqlColumns_firstSeen: "sqlColumns records = firstSeen (allKeys records)"
  using foldl_records_columnSetAdd [of "[]" records] by (simp add: sqlColumns_def)

lemma map_fst_columnMapAdd: "map fst (columnMapAdd m k) = columnSetAdd (map fst m) k"
  by (simp add: columnMapAdd_def columnSetAdd_def)

lemma map_fst_foldl_columnMapAdd:
  "map fst (foldl columnMapAdd m ks) = foldl columnSetAdd (map fst m) ks"
  by (induction ks arbitrary: m) (simp_all add: map_fst_columnMapAdd)

lemma map_fst_foldl_records_columnMapAdd:
  "map fst (foldl (\<lambda>columnMap record. foldl columnMapAdd columnMap (map fst (props record))) m records)
     = foldl (\<lambda>columnSet record. foldl columnSetAdd columnSet (map fst (props record))) (map fst m)
         records"
  by (induction records arbitrary: m) (simp_all add: map_fst_foldl_columnMapAdd)

lemma csvHeaders_firstSeen: "csvHeaders records = firstSeen (allKeys records)"
  using map_fst_foldl_records_columnMapAdd [of "[]" records]
  by (simp add: csvHeaders_def sqlColumns_firstSeen [unfolded sqlColumns_def])


subsection \<open>The layout of the SQL text\<close>

lemma inferSQLType_nonempty: "inferSQLType nstr columnName values \<noteq> []"
  by (simp add: inferSQLType_def Let_def)

lemma map_of_map_keyed:
  "c \<in> set cols \<Longrightarrow> map_of (map (\<lambda>col. (col, f col)) cols) c = Some (f c)"
  by (induction cols) auto

lemma columnType_keyed:
  "c \<in> set cols \<Longrightarrow> f c \<noteq> [] \<Longrightarrow> columnType (map (\<lambda>col. (col, f col)) cols) c = f c"
  by (simp add: columnType_def map_of_map_keyed)

lemma createTableLines_keyed:
  assumes "\<And>c. f c \<noteq> []"
  shows "createTableLines safe cols (map (\<lambda>col. (col, f col)) cols)
       = [''CREATE TABLE '' @ escapeIdentifier safe @ '' (''] @
         map (\<lambda>(idx, col).
                ''  '' @ escapeIdentifier col @ '' '' @ f col
                @ (if idx + 1 < length cols then '','' else []))
           (enumerate 0 cols) @
         ['');'']"
proof -
  have "map (\<lambda>(idx, col).
               ''  '' @ escapeIdentifier col @ '' ''
               @ columnType (map (\<lambda>col. (col, f col)) cols) col
               @ (if idx + 1 < length cols then '','' else []))
          (enumerate 0 cols)
        = map (\<lambda>(idx, col).
                 ''  '' @ escapeIdentifier col @ '' '' @ f col
                 @ (if idx + 1 < length cols then '','' else []))
            (enumerate 0 cols)"
  proof (rule map_cong [OF refl])
    fix e
    assume e: "e \<in> set (enumerate 0 cols)"
    obtain idx col where p: "e = (idx, col)" by (cases e)
    with e have "col \<in> set cols"
      by (auto simp: in_set_enumerate_eq)
    with assms [of col] show
      "(case e of (idx, col) \<Rightarrow>
          ''  '' @ escapeIdentifier col @ '' ''
          @ columnType (map (\<lambda>col. (col, f col)) cols) col
          @ (if idx + 1 < length cols then '','' else []))
       = (case e of (idx, col) \<Rightarrow>
          ''  '' @ escapeIdentifier col @ '' '' @ f col
          @ (if idx + 1 < length cols then '','' else []))"
      by (simp add: p columnType_keyed)
  qed
  then show ?thesis
    by (simp add: createTableLines_def)
qed

lemma generateSQL_layout:
  assumes "records \<noteq> []"
  shows "generateSQL nstr now records tableName
       = (let columns = firstSeen (allKeys records); safe = sanitizeTableName tableName
          in ''-- SQL Generated: '' @ now @ [lineFeed] @ ''-- Table: '' @ safe @ [lineFeed]
             @ ''-- Records: '' @ nstr (indexNumber (length records)) @ [lineFeed, lineFeed]
             @ joinWith [lineFeed]
                 ([''CREATE TABLE '' @ escapeIdentifier safe @ '' (''] @
                  map (\<lambda>(idx, col).
                         ''  '' @ escapeIdentifier col @ '' ''
                         @ inferSQLType nstr col (map (\<lambda>record. getProperty record col) records)
                         @ (if idx + 1 < length columns then '','' else []))
                    (enumerate 0 columns) @
                  ['');''])
             @ [lineFeed, lineFeed]
             @ joinWith [lineFeed]
                 (map (\<lambda>record.
                         ''INSERT INTO '' @ escapeIdentifier safe @ '' (''
                         @ joinWith '', '' (map escapeIdentifier columns)
                         @ '') VALUES (''
                         @ joinWith '', ''
                             (map (\<lambda>col. sqlValue nstr (getProperty record col)) columns)
                         @ '');'')
                    records))"
proof -
  have lines: "createTableLines safe cols
                 (map (\<lambda>col. (col, inferSQLType nstr col
                                      (map (\<lambda>record. getProperty record col) records)))
                    cols)
               = [''CREATE TABLE '' @ escapeIdentifier safe @ '' (''] @
                 map (\<lambda>(idx, col).
                        ''  '' @ escapeIdentifier col @ '' ''
                        @ inferSQLType nstr col (map (\<lambda>record. getProperty record col) records)
                        @ (if idx + 1 < length cols then '','' else []))
                   (enumerate 0 cols) @
                 ['');'']" for safe cols
    by (rule createTableLines_keyed) (rule inferSQLType_nonempty)
  show ?thesis
    using assms
    by (simp add: generateSQL_def Let_def sqlColumns_firstSeen lines insertStatement_def [abs_def])
qed

text \<open>
  C9. Both generators use one column list: the column names of the record set in the
  order of their first occurrence, reading the records in order and the keys of each
  record in order, each name once. It starts with the keys of the first record and goes
  on with the names that the later records introduce, in their own first-seen order. The
  CSV header and every CSV row have one field per column of this list, in its order; the
  \<^verbatim>\<open>CREATE TABLE\<close> statement has one line per column of this list, in its order, and every
  \<^verbatim>\<open>INSERT\<close> names the columns and gives the values in this order. The list is not
  sorted (keys \<open>b, a\<close> then \<open>c, a\<close> give \<open>b, a, c\<close>).
\<close>

theorem columns_in_first_seen_order:
  "sqlColumns records = firstSeen (allKeys records)
   \<and> csvHeaders records = firstSeen (allKeys records)
   \<and> distinct (firstSeen (allKeys records))
   \<and> set (firstSeen (allKeys records)) = set (allKeys records)
   \<and> (distinct (map fst (props r)) \<longrightarrow>
        firstSeen (allKeys (r # records))
          = map fst (props r)
            @ filter (\<lambda>k. k \<notin> set (map fst (props r))) (firstSeen (allKeys records)))
   \<and> (records \<noteq> [] \<longrightarrow>
        generateCSV nstr records
          = (let columns = firstSeen (allKeys records)
             in joinWith [lineFeed]
                  (joinWith '','' (map (\<lambda>h. escapeCSVValue nstr (Value (JStr h))) columns)
                   # map (\<lambda>record.
                            joinWith '',''
                              (map (\<lambda>h. escapeCSVValue nstr (getProperty record h)) columns))
                       records)))
   \<and> (records \<noteq> [] \<longrightarrow>
        generateSQL nstr now records tableName
          = (let columns = firstSeen (allKeys records); safe = sanitizeTableName tableName
             in ''-- SQL Generated: '' @ now @ [lineFeed] @ ''-- Table: '' @ safe @ [lineFeed]
                @ ''-- Records: '' @ nstr (indexNumber (length records)) @ [lineFeed, lineFeed]
                @ joinWith [lineFeed]
                    ([''CREATE TABLE '' @ escapeIdentifier safe @ '' (''] @
                     map (\<lambda>(idx, col).
                            ''  '' @ escapeIdentifier col @ '' ''
                            @ inferSQLType nstr col
                                (map (\<lambda>record. getProperty record col) records)
                            @ (if idx + 1 < length columns then '','' else []))
                       (enumerate 0 columns) @
                     ['');''])
                @ [lineFeed, lineFeed]
                @ joinWith [lineFeed]
                    (map (\<lambda>record.
                            ''INSERT INTO '' @ escapeIdentifier safe @ '' (''
                            @ joinWith '', '' (map escapeIdentifier columns)
                            @ '') VALUES (''
                            @ joinWith '', ''
                                (map (\<lambda>col. sqlValue nstr (getProperty record col)) columns)
                            @ '');'')
                       records)))
   \<and> sqlColumns [ordinary [(''b'', JNull), (''a'', JNull)], ordinary [(''c'', JNull), (''a'', JNull)]]
       = [''b'', ''a'', ''c'']"
proof (intro conjI impI)
  assume "distinct (map fst (props r))"
  then show "firstSeen (allKeys (r # records))
          = map fst (props r)
            @ filter (\<lambda>k. k \<notin> set (map fst (props r))) (firstSeen (allKeys records))"
    using firstSeen_append [of "map fst (props r)" "allKeys records"]
    by (simp add: allKeys_def firstSeen_distinct)
next
  assume "records \<noteq> []"
  then show "generateCSV nstr records
          = (let columns = firstSeen (allKeys records)
             in joinWith [lineFeed]
                  (joinWith '','' (map (\<lambda>h. escapeCSVValue nstr (Value (JStr h))) columns)
                   # map (\<lambda>record.
                            joinWith '',''
                              (map (\<lambda>h. escapeCSVValue nstr (getProperty record h)) columns))
                       records))"
    by (simp add: generateCSV_def Let_def csvHeaders_firstSeen)
next
  assume "records \<noteq> []"
  then show "generateSQL nstr now records tableName
          = (let columns = firstSeen (allKeys records); safe = sanitizeTableName tableName
             in ''-- SQL Generated: '' @ now @ [lineFeed] @ ''-- Table: '' @ safe @ [lineFeed]
                @ ''-- Records: '' @ nstr (indexNumber (length records)) @ [lineFeed, lineFeed]
                @ joinWith [lineFeed]
                    ([''CREATE TABLE '' @ escapeIdentifier safe @ '' (''] @
                     map (\<lambda>(idx, col).
                            ''  '' @ escapeIdentifier col @ '' ''
                            @ inferSQLType nstr col
                                (map (\<lambda>record. getProperty record col) records)
                            @ (if idx + 1 < length columns then '','' else []))
                       (enumerate 0 columns) @
                     ['');''])
                @ [lineFeed, lineFeed]
                @ joinWith [lineFeed]
                    (map (\<lambda>record.
                            ''INSERT INTO '' @ escapeIdentifier safe @ '' (''
                            @ joinWith '', '' (map escapeIdentifier columns)
                            @ '') VALUES (''
                            @ joinWith '', ''
                                (map (\<lambda>col. sqlValue nstr (getProperty record col)) columns)
                            @ '');'')
                       records))"
    by (rule generateSQL_layout)
next
  show "sqlColumns [ordinary [(''b'', JNull), (''a'', JNull)], ordinary [(''c'', JNull), (''a'', JNull)]]
       = [''b'', ''a'', ''c'']"
    by (simp add: sqlColumns_def columnSetAdd_def)
qed (simp_all add: sqlColumns_firstSeen csvHeaders_firstSeen distinct_firstSeen set_firstSeen)

theorem columns_in_first_seen_order_witness:
  "distinct (map fst (props (ordinary [(''b'', JNull), (''a'', JStr ''x'')])))
   \<and> [ordinary [(''c'', JBool True), (''a'', JNull)]] \<noteq> []
   \<and> firstSeen (allKeys [ordinary [(''b'', JNull), (''a'', JStr ''x'')],
                          ordinary [(''c'', JBool True), (''a'', JNull)]])
       = [''b'', ''a'', ''c'']
   \<and> sqlColumns [ordinary [(''c'', JBool True), (''a'', JNull)]] = [''c'', ''a'']
   \<and> csvHeaders [ordinary [(''c'', JBool True), (''a'', JNull)]] = [''c'', ''a'']
   \<and> generateCSV integerToString [ordinary [(''c'', JBool True), (''a'', JNull)]]
       = ''c,a'' @ [lineFeed] @ ''true,''
   \<and> generateSQL integerToString ''2026-01-01T00:00:00.000Z''
         [ordinary [(''c'', JBool True), (''a'', JNull)]] ''t''
       = ''-- SQL Generated: 2026-01-01T00:00:00.000Z'' @ [lineFeed] @ ''-- Table: t''
         @ [lineFeed] @ ''-- Records: 1'' @ [lineFeed, lineFeed]
         @ ''CREATE TABLE '' @ [dquote] @ ''t'' @ [dquote] @ '' ('' @ [lineFeed]
         @ ''  '' @ [dquote] @ ''c'' @ [dquote] @ '' BOOLEAN,'' @ [lineFeed]
         @ ''  '' @ [dquote] @ ''a'' @ [dquote] @ '' TEXT'' @ [lineFeed]
         @ '');'' @ [lineFeed, lineFeed]
         @ ''INSERT INTO '' @ [dquote] @ ''t'' @ [dquote] @ '' ('' @ [dquote] @ ''c'' @ [dquote]
         @ '', '' @ [dquote] @ ''a'' @ [dquote] @ '') VALUES (TRUE, NULL);''"
  using columns_in_first_seen_order
          [of "[ordinary [(''c'', JBool True), (''a'', JNull)]]"
              "ordinary [(''b'', JNull), (''a'', JStr ''x'')]"
              integerToString "''2026-01-01T00:00:00.000Z''" "''t''"]
  by (simp add: firstSeen_def allKeys_def escapeCSVValue_def Let_def
        stringIncludes_def startsWithFormulaChar_def getProperty_def enumerate_eq_zip
        escapeIdentifier_def replaceAll_def sanitizeTableName_def isWordChar_def
        inferSQLType_def initialProfile_def sqlValue_def indexNumber_def
        integerToString_small)

subsection \<open>Sibling arrays\<close>

lemma plainObject_arrayFree: "plainObject v \<Longrightarrow> arrayFree v"
  by (cases v) simp_all

lemma plainObject_not_isPrimitive: "plainObject v \<Longrightarrow> \<not> isPrimitive v"
  by (cases v) simp_all

lemma explode_arrayFree:
  "arrayFree v \<Longrightarrow>
     length (explodeObject nstr v prefix parentContext sourcePath arrayLevel) = 1"
  "list_all arrayFree items \<Longrightarrow>
     length (explodeItems nstr items idx prefix parentContext sourcePath arrayLevel)
       = length items"
  "list_all arrayFree (map snd es) \<Longrightarrow>
     snd (explodeEntries nstr es prefix sourcePath arrayLevel baseContext nestedExplosions)
       = nestedExplosions"
proof (induction nstr v prefix parentContext sourcePath arrayLevel
         and nstr items idx prefix parentContext sourcePath arrayLevel
         and nstr es prefix sourcePath arrayLevel baseContext nestedExplosions
       rule: explodeObject_explodeItems_explodeEntries.induct)
  case (2 nstr es prefix parentContext sourcePath arrayLevel)
  then show ?case
    by (auto split: prod.splits)
next
  case (5 nstr item rest idx prefix parentContext sourcePath arrayLevel)
  then show ?case
    by (simp add: Let_def)
next
  case (7 nstr key "value" rest prefix sourcePath arrayLevel baseContext nestedExplosions)
  show ?case
  proof (cases "value")
    case (JArr xs)
    with "7.prems" show ?thesis by simp
  next
    case (JObj fs)
    let ?fullKey = "if prefix \<noteq> [] then prefix @ ''_'' @ key else key"
    let ?nested = "explodeObject nstr value ?fullKey baseContext sourcePath arrayLevel"
    from "7.prems" have v: "arrayFree value" and r: "list_all arrayFree (map snd rest)"
      by simp_all
    from "7.IH"(9) [OF refl JObj v] have one: "length ?nested = 1" .
    then have n1: "\<not> 1 < length ?nested" by simp
    from "7.IH"(11) [OF refl JObj refl n1 one r] JObj one show ?thesis
      by (simp add: Let_def)
  qed (use 7 in \<open>simp_all add: Let_def\<close>)
qed simp_all

lemma explodeEntries_append:
  "explodeEntries nstr (es1 @ es2) prefix sourcePath arrayLevel baseContext nestedExplosions
     = explodeEntries nstr es2 prefix sourcePath arrayLevel
         (fst (explodeEntries nstr es1 prefix sourcePath arrayLevel baseContext nestedExplosions))
         (snd (explodeEntries nstr es1 prefix sourcePath arrayLevel baseContext nestedExplosions))"
proof (induction es1 arbitrary: baseContext nestedExplosions)
  case Nil
  then show ?case by simp
next
  case (Cons e es1)
  obtain key "value" where e: "e = (key, value)" by (cases e)
  show ?case
    by (cases "value") (simp_all add: e Let_def Cons.IH)
qed

lemma explodeItems_plainObjects:
  "list_all plainObject xs \<Longrightarrow>
     length (explodeItems nstr xs idx prefix parentContext sourcePath arrayLevel) = length xs"
  by (rule explode_arrayFree(2)) (simp add: list_all_iff plainObject_arrayFree)

lemma explodeEntries_object_array:
  assumes "list_all plainObject xs"
  shows "length (snd (explodeEntries nstr [(key, JArr xs)] prefix sourcePath arrayLevel
                        baseContext nestedExplosions))
           = length nestedExplosions + length xs"
proof (cases xs)
  case Nil
  then show ?thesis by simp
next
  case (Cons x xs')
  then have nonempty: "xs \<noteq> []" by simp
  from Cons assms have notPrimitive: "\<not> list_all isPrimitive xs"
    by (simp add: plainObject_not_isPrimitive)
  have len: "length (explodeItems nstr xs 0 p c s l) = length xs" for p c s l
    using assms by (rule explodeItems_plainObjects)
  have ne: "explodeItems nstr xs 0 p c s l \<noteq> []" for p c s l
    using len [of p c s l] nonempty by (cases "explodeItems nstr xs 0 p c s l") simp_all
  show ?thesis
    by (simp add: Let_def nonempty notPrimitive len ne)
qed

lemma sibling_arrays_entries:
  assumes "list_all plainObject xs" and "list_all plainObject ys"
    and "list_all arrayFree (map snd (pre @ mid @ post))"
  shows "length (snd (explodeEntries nstr (pre @ (k1, JArr xs) # mid @ (k2, JArr ys) # post)
                        prefix sourcePath arrayLevel baseContext []))
           = length xs + length ys"
proof -
  from assms(3) have pre: "list_all arrayFree (map snd pre)"
    and mid: "list_all arrayFree (map snd mid)"
    and post: "list_all arrayFree (map snd post)"
    by simp_all
  have split: "pre @ (k1, JArr xs) # mid @ (k2, JArr ys) # post
                 = pre @ [(k1, JArr xs)] @ mid @ [(k2, JArr ys)] @ post"
    by simp
  show ?thesis
    unfolding split
    by (simp only: explodeEntries_append explode_arrayFree(3) [OF pre]
          explode_arrayFree(3) [OF mid] explode_arrayFree(3) [OF post]
          explodeEntries_object_array [OF assms(1)] explodeEntries_object_array [OF assms(2)]
          list.size)
qed

lemma sibling_arrays_count:
  assumes "list_all plainObject xs" and "list_all plainObject ys"
    and "list_all arrayFree (map snd (pre @ mid @ post))"
  shows "length (explodeObject nstr (JObj (pre @ (k1, JArr xs) # mid @ (k2, JArr ys) # post))
                   prefix parentContext sourcePath arrayLevel)
           = (if xs = [] \<and> ys = [] then 1 else length xs + length ys)"
proof -
  let ?es = "pre @ (k1, JArr xs) # mid @ (k2, JArr ys) # post"
  obtain bc ne where s: "explodeEntries nstr ?es prefix sourcePath arrayLevel
                           (copyObject parentContext) [] = (bc, ne)"
    by (cases "explodeEntries nstr ?es prefix sourcePath arrayLevel (copyObject parentContext) []")
  have "length ne = length xs + length ys"
    using sibling_arrays_entries [OF assms, of nstr k1 k2 prefix sourcePath arrayLevel
            "copyObject parentContext"] s by simp
  then show ?thesis
    using s by (cases ne) auto
qed

text \<open>
  C1 (as the code has it). An object with two sibling arrays of objects, of lengths N and
  M, and no array anywhere else flattens to exactly N + M records when one of the arrays
  is not empty (a union, never N times M), and to one record when both are empty. In
  particular \<open>{"company":"Acme","users":[{"id":1},{"id":2}],"orders":[{"id":"A"}]}\<close> gives
  the three records \<open>{company:"Acme", users_index:0, users_id:1}\<close>,
  \<open>{company:"Acme", users_index:1, users_id:2}\<close> and
  \<open>{company:"Acme", orders_index:0, orders_id:"A"}\<close>.
\<close>

theorem sibling_arrays_union:
  assumes "list_all plainObject xs" and "list_all plainObject ys"
    and "list_all arrayFree (map snd (pre @ mid @ post))"
  shows
    "length (data (parseAndFlattenJSON nstr
                     (JObj (pre @ (k1, JArr xs) # mid @ (k2, JArr ys) # post))))
       = (if xs = [] \<and> ys = [] then 1 else length xs + length ys)
     \<and> objectCount (parseAndFlattenJSON nstr
                       (JObj (pre @ (k1, JArr xs) # mid @ (k2, JArr ys) # post)))
         = (if xs = [] \<and> ys = [] then 1 else length xs + length ys)
     \<and> data (parseAndFlattenJSON nstr
                (JObj [(''company'', JStr ''Acme''),
                       (''users'', JArr [JObj [(''id'', JNum (Finite 1))],
                                         JObj [(''id'', JNum (Finite 2))]]),
                       (''orders'', JArr [JObj [(''id'', JStr ''A'')]])]))
         = [ordinary [(''company'', JStr ''Acme''), (''users_index'', JNum (Finite 0)),
                      (''users_id'', JNum (Finite 1))],
            ordinary [(''company'', JStr ''Acme''), (''users_index'', JNum (Finite 1)),
                      (''users_id'', JNum (Finite 2))],
            ordinary [(''company'', JStr ''Acme''), (''orders_index'', JNum (Finite 0)),
                      (''orders_id'', JStr ''A'')]]
     \<and> map (\<lambda>record. set (props record)) (data (parseAndFlattenJSON nstr
                (JObj [(''company'', JStr ''Acme''),
                       (''users'', JArr [JObj [(''id'', JNum (Finite 1))],
                                         JObj [(''id'', JNum (Finite 2))]]),
                       (''orders'', JArr [JObj [(''id'', JStr ''A'')]])])))
         = [{(''company'', JStr ''Acme''), (''users_id'', JNum (Finite 1)),
             (''users_index'', JNum (Finite 0))},
            {(''company'', JStr ''Acme''), (''users_id'', JNum (Finite 2)),
             (''users_index'', JNum (Finite 1))},
            {(''company'', JStr ''Acme''), (''orders_id'', JStr ''A''),
             (''orders_index'', JNum (Finite 0))}]"
proof -
  have example: "data (parseAndFlattenJSON nstr
                (JObj [(''company'', JStr ''Acme''),
                       (''users'', JArr [JObj [(''id'', JNum (Finite 1))],
                                         JObj [(''id'', JNum (Finite 2))]]),
                       (''orders'', JArr [JObj [(''id'', JStr ''A'')]])]))
         = [ordinary [(''company'', JStr ''Acme''), (''users_index'', JNum (Finite 0)),
                      (''users_id'', JNum (Finite 1))],
            ordinary [(''company'', JStr ''Acme''), (''users_index'', JNum (Finite 1)),
                      (''users_id'', JNum (Finite 2))],
            ordinary [(''company'', JStr ''Acme''), (''orders_index'', JNum (Finite 0)),
                      (''orders_id'', JStr ''A'')]]"
    by (simp add: parseAndFlattenJSON_def Let_def withProperty_def copyObject_def
          assignProperty_def defineProperty_def hasOwnProperty_def isArrayIndex_def
          isDigit_def indexNumber_def spread_def)
  have count: "length (explodeObject nstr
                         (JObj (pre @ (k1, JArr xs) # mid @ (k2, JArr ys) # post)) []
                         (ordinary []) [] 0)
                 = (if xs = [] \<and> ys = [] then 1 else length xs + length ys)"
    using assms by (rule sibling_arrays_count)
  show ?thesis
  proof (intro conjI)
    show "map (\<lambda>record. set (props record)) (data (parseAndFlattenJSON nstr
                (JObj [(''company'', JStr ''Acme''),
                       (''users'', JArr [JObj [(''id'', JNum (Finite 1))],
                                         JObj [(''id'', JNum (Finite 2))]]),
                       (''orders'', JArr [JObj [(''id'', JStr ''A'')]])])))
         = [{(''company'', JStr ''Acme''), (''users_id'', JNum (Finite 1)),
             (''users_index'', JNum (Finite 0))},
            {(''company'', JStr ''Acme''), (''users_id'', JNum (Finite 2)),
             (''users_index'', JNum (Finite 1))},
            {(''company'', JStr ''Acme''), (''orders_id'', JStr ''A''),
             (''orders_index'', JNum (Finite 0))}]"
      unfolding example by (simp add: insert_commute)
  qed (use count example in \<open>simp_all add: parseAndFlattenJSON_def Let_def
         del: explodeObject.simps\<close>)
qed

theorem sibling_arrays_union_witness:
  "list_all plainObject [JObj [(''id'', JNum (Finite 1)), (''home'', JObj [(''city'', JStr ''Oslo'')])],
                         JObj []]
   \<and> list_all plainObject [JObj [(''id'', JStr ''A'')]]
   \<and> list_all arrayFree (map snd ([(''company'', JStr ''Acme'')] @ [(''meta'', JObj [(''v'', JNull)])] @ []))
   \<and> length (data (parseAndFlattenJSON integerToString
                (JObj [(''company'', JStr ''Acme''),
                       (''users'', JArr [JObj [(''id'', JNum (Finite 1)),
                                               (''home'', JObj [(''city'', JStr ''Oslo'')])],
                                         JObj []]),
                       (''meta'', JObj [(''v'', JNull)]),
                       (''orders'', JArr [JObj [(''id'', JStr ''A'')]])])))
       = 3"
  using sibling_arrays_union
          [of "[JObj [(''id'', JNum (Finite 1)), (''home'', JObj [(''city'', JStr ''Oslo'')])],
                JObj []]"
              "[JObj [(''id'', JStr ''A'')]]"
              "[(''company'', JStr ''Acme'')]" "[(''meta'', JObj [(''v'', JNull)])]" "[]"
              integerToString "''users''" "''orders''"]
  by simp

text \<open>With both arrays empty the object flattens to one record, not to 0 + 0 records.\<close>

theorem empty_sibling_arrays_counterexample:
  "length (data (parseAndFlattenJSON integerToString
                   (JObj [(''users'', JArr []), (''orders'', JArr [])])))
     \<noteq> length ([] :: json list) + length ([] :: json list)"
  by (simp add: parseAndFlattenJSON_def Let_def)

end
